theory Spec2Isabelle
  imports Complex_Main
begin

section \<open>Single-precision floating point values\<close>

text \<open>
  The C++ type \<^verbatim>\<open>float\<close> is modelled by the value an IEEE-754 binary32 datum denotes:
  not-a-number, one of the two infinities, or a finite real number.  The two signed
  zeros compare equal in C++ and denote the same real; they are identified here.
  \<open>Fin r\<close> is available for every real \<open>r\<close>; the binary32 values are those that
  rounding leaves unchanged, so a property shown for all \<open>r\<close> holds for them.
  Comparisons follow IEEE-754: every ordered comparison with a NaN operand is false.
\<close>

datatype float = NaN | NInf | Fin real | PInf

text \<open>\<^verbatim>\<open>a < b\<close> on floats.\<close>

fun flt :: "float \<Rightarrow> float \<Rightarrow> bool" where
  "flt NaN b = False"
| "flt a NaN = False"
| "flt NInf NInf = False"
| "flt NInf b = True"
| "flt (Fin u) NInf = False"
| "flt (Fin u) (Fin v) = (u < v)"
| "flt (Fin u) PInf = True"
| "flt PInf b = False"

text \<open>\<^verbatim>\<open>a <= b\<close> on floats.\<close>

fun fle :: "float \<Rightarrow> float \<Rightarrow> bool" where
  "fle NaN b = False"
| "fle a NaN = False"
| "fle NInf b = True"
| "fle (Fin u) NInf = False"
| "fle (Fin u) (Fin v) = (u \<le> v)"
| "fle (Fin u) PInf = True"
| "fle PInf PInf = True"
| "fle PInf b = False"

text \<open>\<^verbatim>\<open>a > b\<close> and \<^verbatim>\<open>a >= b\<close> on floats.\<close>

definition fgt :: "float \<Rightarrow> float \<Rightarrow> bool" where
  "fgt a b = flt b a"

definition fge :: "float \<Rightarrow> float \<Rightarrow> bool" where
  "fge a b = fle b a"

text \<open>
  \<^verbatim>\<open>glm::min(x, y)\<close> and \<^verbatim>\<open>glm::max(x, y)\<close> on scalars, as the GLM library
  implements them: \<^verbatim>\<open>(y < x) ? y : x\<close> and \<^verbatim>\<open>(x < y) ? y : x\<close>.
\<close>

definition glm_min :: "float \<Rightarrow> float \<Rightarrow> float" where
  "glm_min a b = (if flt b a then b else a)"

definition glm_max :: "float \<Rightarrow> float \<Rightarrow> float" where
  "glm_max a b = (if flt a b then b else a)"

section \<open>Rounding and arithmetic\<close>

text \<open>
  Every arithmetic operation on finite operands returns the exact real result rounded to
  binary32 in the default IEEE-754 mode, round to nearest with ties to even; each
  operation of the source is rounded on its own (no fused multiply-add, no wider
  intermediate precision).  \<open>rne\<close> rounds a real to the nearest integer, ties to the
  even one.  \<open>ulp_exp r\<close> is the binary exponent of the unit in the last place at the
  magnitude of \<open>r\<close>: 24 significant bits, and exponent \<open>-149\<close> throughout the
  subnormal range.  \<open>rval r\<close> is \<open>r\<close> rounded to a multiple of that unit.  A result
  of magnitude \<open>2 ^ 128\<close> or more after rounding overflows to the infinity of its sign.
\<close>

definition rne :: "real \<Rightarrow> int" where
  "rne r = (let f = \<lfloor>r\<rfloor>; d = r - of_int f in
            if d < 1 / 2 then f else if 1 / 2 < d then f + 1 else if even f then f else f + 1)"

definition ulp_exp :: "real \<Rightarrow> int" where
  "ulp_exp r = max (\<lfloor>log 2 \<bar>r\<bar>\<rfloor> - 23) (- 149)"

definition rval :: "real \<Rightarrow> real" where
  "rval r = of_int (rne (r / 2 powr (of_int (ulp_exp r)))) * 2 powr (of_int (ulp_exp r))"

definition rnd32 :: "real \<Rightarrow> float" where
  "rnd32 r =
     (if r = 0 then Fin 0
      else if 2 ^ 128 \<le> \<bar>rval r\<bar> then (if 0 < r then PInf else NInf)
      else Fin (rval r))"

text \<open>Unary minus and \<^verbatim>\<open>fabs\<close>.\<close>

definition fneg :: "float \<Rightarrow> float" where
  "fneg a = (case a of NaN \<Rightarrow> NaN | NInf \<Rightarrow> PInf | Fin u \<Rightarrow> Fin (- u) | PInf \<Rightarrow> NInf)"

definition fabs :: "float \<Rightarrow> float" where
  "fabs a = (case a of NaN \<Rightarrow> NaN | NInf \<Rightarrow> PInf | Fin u \<Rightarrow> Fin \<bar>u\<bar> | PInf \<Rightarrow> PInf)"

text \<open>\<^verbatim>\<open>a + b\<close>: infinities of opposite sign add up to NaN.\<close>

fun fadd :: "float \<Rightarrow> float \<Rightarrow> float" where
  "fadd NaN b = NaN"
| "fadd a NaN = NaN"
| "fadd (Fin u) (Fin v) = rnd32 (u + v)"
| "fadd (Fin u) b = b"
| "fadd a (Fin v) = a"
| "fadd PInf PInf = PInf"
| "fadd NInf NInf = NInf"
| "fadd PInf NInf = NaN"
| "fadd NInf PInf = NaN"

text \<open>\<^verbatim>\<open>a - b\<close> is \<^verbatim>\<open>a + (-b)\<close>.\<close>

definition fsub :: "float \<Rightarrow> float \<Rightarrow> float" where
  "fsub a b = fadd a (fneg b)"

text \<open>\<^verbatim>\<open>a * b\<close>: zero times an infinity is NaN.\<close>

fun fmul :: "float \<Rightarrow> float \<Rightarrow> float" where
  "fmul NaN b = NaN"
| "fmul a NaN = NaN"
| "fmul (Fin u) (Fin v) = rnd32 (u * v)"
| "fmul (Fin u) PInf = (if u = 0 then NaN else if 0 < u then PInf else NInf)"
| "fmul (Fin u) NInf = (if u = 0 then NaN else if 0 < u then NInf else PInf)"
| "fmul PInf (Fin v) = (if v = 0 then NaN else if 0 < v then PInf else NInf)"
| "fmul NInf (Fin v) = (if v = 0 then NaN else if 0 < v then NInf else PInf)"
| "fmul PInf PInf = PInf"
| "fmul PInf NInf = NInf"
| "fmul NInf PInf = NInf"
| "fmul NInf NInf = PInf"

text \<open>\<^verbatim>\<open>constexpr float kTolerance = 1e-5;\<close>: the decimal literal converted to \<^verbatim>\<open>float\<close>.\<close>

definition kTolerance :: float where
  "kTolerance = rnd32 (1 / 100000)"

section \<open>Vectors\<close>

datatype vec2 = Vec2 (vx2: float) (vy2: float)

datatype vec3 = Vec3 (vx: float) (vy: float) (vz: float)

text \<open>\<^verbatim>\<open>glm::vec3(s)\<close>: all three components equal to the scalar.\<close>

definition splat3 :: "float \<Rightarrow> vec3" where
  "splat3 s = Vec3 s s s"

text \<open>Componentwise \<^verbatim>\<open>glm::min\<close> and \<^verbatim>\<open>glm::max\<close> on \<^verbatim>\<open>glm::vec3\<close>.\<close>

definition min3 :: "vec3 \<Rightarrow> vec3 \<Rightarrow> vec3" where
  "min3 a b = Vec3 (glm_min (vx a) (vx b)) (glm_min (vy a) (vy b)) (glm_min (vz a) (vz b))"

definition max3 :: "vec3 \<Rightarrow> vec3 \<Rightarrow> vec3" where
  "max3 a b = Vec3 (glm_max (vx a) (vx b)) (glm_max (vy a) (vy b)) (glm_max (vz a) (vz b))"

text \<open>\<^verbatim>\<open>glm::all(glm::greaterThanEqual(a, b))\<close>.\<close>

definition all_greaterThanEqual :: "vec3 \<Rightarrow> vec3 \<Rightarrow> bool" where
  "all_greaterThanEqual a b = (fge (vx a) (vx b) \<and> fge (vy a) (vy b) \<and> fge (vz a) (vz b))"

text \<open>Componentwise \<^verbatim>\<open>a - b\<close> and \<^verbatim>\<open>glm::dot(a, b)\<close> on \<^verbatim>\<open>glm::vec2\<close>.\<close>

definition sub2 :: "vec2 \<Rightarrow> vec2 \<Rightarrow> vec2" where
  "sub2 a b = Vec2 (fsub (vx2 a) (vx2 b)) (fsub (vy2 a) (vy2 b))"

definition dot2 :: "vec2 \<Rightarrow> vec2 \<Rightarrow> float" where
  "dot2 a b = fadd (fmul (vx2 a) (vx2 b)) (fmul (vy2 a) (vy2 b))"

text \<open>Componentwise \<^verbatim>\<open>a + b\<close> and \<^verbatim>\<open>a * b\<close> on \<^verbatim>\<open>glm::vec3\<close>.\<close>

definition add3 :: "vec3 \<Rightarrow> vec3 \<Rightarrow> vec3" where
  "add3 a b = Vec3 (fadd (vx a) (vx b)) (fadd (vy a) (vy b)) (fadd (vz a) (vz b))"

definition mul3 :: "vec3 \<Rightarrow> vec3 \<Rightarrow> vec3" where
  "mul3 a b = Vec3 (fmul (vx a) (vx b)) (fmul (vy a) (vy b)) (fmul (vz a) (vz b))"

text \<open>
  \<^verbatim>\<open>glm::mat4x3\<close> has four columns of three rows.  \<^verbatim>\<open>transform * glm::vec4(v, 1.0f)\<close>
  computes, for each row \<open>r\<close>,
  \<^verbatim>\<open>m[0][r] * v.x + m[1][r] * v.y + m[2][r] * v.z + m[3][r] * v.w\<close> from left to right.
\<close>

datatype mat4x3 = Mat4x3 (col0: vec3) (col1: vec3) (col2: vec3) (col3: vec3)

definition mat_row :: "float \<Rightarrow> float \<Rightarrow> float \<Rightarrow> float \<Rightarrow> vec3 \<Rightarrow> float" where
  "mat_row m0 m1 m2 m3 v =
     fadd (fadd (fadd (fmul m0 (vx v)) (fmul m1 (vy v))) (fmul m2 (vz v))) (fmul m3 (Fin 1))"

definition transform_point :: "mat4x3 \<Rightarrow> vec3 \<Rightarrow> vec3" where
  "transform_point m v =
     Vec3 (mat_row (vx (col0 m)) (vx (col1 m)) (vx (col2 m)) (vx (col3 m)) v)
          (mat_row (vy (col0 m)) (vy (col1 m)) (vy (col2 m)) (vy (col3 m)) v)
          (mat_row (vz (col0 m)) (vz (col1 m)) (vz (col2 m)) (vz (col3 m)) v)"

text \<open>\<^verbatim>\<open>glm::ivec3\<close> and its subscript; GLM asserts that the index is 0, 1 or 2.\<close>

datatype ivec3 = IVec3 int int int

fun ivec3_at :: "ivec3 \<Rightarrow> int \<Rightarrow> int option" where
  "ivec3_at (IVec3 a b c) i =
     (if i = 0 then Some a else if i = 1 then Some b else if i = 2 then Some c else None)"

text \<open>Assignment to \<^verbatim>\<open>v[i]\<close> of a \<^verbatim>\<open>glm::vec3\<close>, under the same assertion.\<close>

fun vec3_set :: "vec3 \<Rightarrow> int \<Rightarrow> float \<Rightarrow> vec3 option" where
  "vec3_set (Vec3 a b c) i s =
     (if i = 0 then Some (Vec3 s b c) else if i = 1 then Some (Vec3 a s c)
      else if i = 2 then Some (Vec3 a b s) else None)"

section \<open>Scalar primitives\<close>

text \<open>\<^verbatim>\<open>int Signum(float val) { return (val > 0) - (val < 0); }\<close>\<close>

definition Signum :: "float \<Rightarrow> int" where
  "Signum val = (if fgt val (Fin 0) then 1 else 0) - (if flt val (Fin 0) then 1 else 0)"

text \<open>
  \<^verbatim>\<open>int CCW(glm::vec2 p0, glm::vec2 p1, glm::vec2 p2, float tol)\<close>.  The signed area and
  the scale reference are named so that properties can refer to them.
\<close>

definition CCW_area :: "vec2 \<Rightarrow> vec2 \<Rightarrow> vec2 \<Rightarrow> float" where
  "CCW_area p0 p1 p2 =
     (let v1 = sub2 p1 p0; v2 = sub2 p2 p0
      in fsub (fmul (vx2 v1) (vy2 v2)) (fmul (vy2 v1) (vx2 v2)))"

definition CCW_base2 :: "vec2 \<Rightarrow> vec2 \<Rightarrow> vec2 \<Rightarrow> float" where
  "CCW_base2 p0 p1 p2 =
     (let v1 = sub2 p1 p0; v2 = sub2 p2 p0 in glm_max (dot2 v1 v1) (dot2 v2 v2))"

definition CCW :: "vec2 \<Rightarrow> vec2 \<Rightarrow> vec2 \<Rightarrow> float \<Rightarrow> int" where
  "CCW p0 p1 p2 tol =
     (let v1 = sub2 p1 p0;
          v2 = sub2 p2 p0;
          area = fsub (fmul (vx2 v1) (vy2 v2)) (fmul (vy2 v1) (vx2 v2));
          base2 = glm_max (dot2 v1 v1) (dot2 v2 v2)
      in if fle (fmul area area) (fmul (fmul base2 tol) tol) then 0
         else if fgt area (Fin 0) then 1 else - 1)"

text \<open>
  \<^verbatim>\<open>std::isfinite\<close>, and \<^verbatim>\<open>remquo(x, y, &quo)\<close> of the C library: the IEEE remainder
  \<open>x - n * y\<close>, where \<open>n\<close> is the integer nearest to \<open>x / y\<close> (ties to even), which is
  exact; \<open>quo\<close> receives the sign of \<open>n\<close> and its magnitude modulo \<open>2 ^ k\<close> for an
  implementation-defined \<open>k \<ge> 3\<close>, here 3.
\<close>

definition isfinite :: "float \<Rightarrow> bool" where
  "isfinite a = (case a of Fin u \<Rightarrow> True | _ \<Rightarrow> False)"

fun remquo :: "float \<Rightarrow> float \<Rightarrow> float \<times> int" where
  "remquo (Fin u) (Fin v) =
     (if v = 0 then (NaN, 0)
      else let n = rne (u / v) in (Fin (u - of_int n * v), sgn n * (\<bar>n\<bar> mod 8)))"
| "remquo (Fin u) PInf = (Fin u, 0)"
| "remquo (Fin u) NInf = (Fin u, 0)"
| "remquo a b = (NaN, 0)"

text \<open>The \<^verbatim>\<open>%\<close> of C++ on \<^verbatim>\<open>int\<close> truncates towards zero.\<close>

definition trunc_mod :: "int \<Rightarrow> int \<Rightarrow> int" where
  "trunc_mod a b = sgn a * (\<bar>a\<bar> mod \<bar>b\<bar>)"

text \<open>\<^verbatim>\<open>glm::radians(x)\<close> is \<^verbatim>\<open>x * 0.01745329251994329576923690768489f\<close>.\<close>

definition radians :: "float \<Rightarrow> float" where
  "radians a = fmul a (rnd32 (1745329251994329576923690768489 / 10 ^ 32))"

text \<open>
  \<^verbatim>\<open>float sind(float x)\<close> and \<^verbatim>\<open>float cosd(float x)\<close>.  The sine and cosine of the C
  library are the parameters \<open>sn\<close> and \<open>cs\<close>.
\<close>

function sind :: "(float \<Rightarrow> float) \<Rightarrow> (float \<Rightarrow> float) \<Rightarrow> float \<Rightarrow> float" where
  "sind sn cs x =
     (if \<not> isfinite x then sn x
      else if flt x (Fin 0) then fneg (sind sn cs (fneg x))
      else let (r, quo) = remquo (fabs x) (Fin 90);
               q = trunc_mod quo 4
           in if q = 0 then sn (radians r)
              else if q = 1 then cs (radians r)
              else if q = 2 then fneg (sn (radians r))
              else if q = 3 then fneg (cs (radians r))
              else Fin 0)"
  by pat_completeness auto
termination
  by (relation "measure (\<lambda>(sn, cs, x). if flt x (Fin 0) then 1 else 0)")
     (auto simp: isfinite_def fneg_def split: float.splits)

declare sind.simps [simp del]

definition cosd :: "(float \<Rightarrow> float) \<Rightarrow> (float \<Rightarrow> float) \<Rightarrow> float \<Rightarrow> float" where
  "cosd sn cs x = sind sn cs (fadd x (Fin 90))"

section \<open>Axis-aligned bounding box\<close>

record Box =
  min_pt :: vec3
  max_pt :: vec3

text \<open>
  The default constructor leaves the member initialisers in place:
  \<^verbatim>\<open>min = glm::vec3(1.0f / 0.0f)\<close>, \<^verbatim>\<open>max = glm::vec3(-1.0f / 0.0f)\<close>, that is
  plus and minus infinity in every component.
\<close>

definition Box_default :: Box where
  "Box_default = \<lparr>min_pt = splat3 PInf, max_pt = splat3 NInf\<rparr>"

text \<open>\<^verbatim>\<open>Box(p1, p2)\<close>: the box that contains the two given points.\<close>

definition Box_of :: "vec3 \<Rightarrow> vec3 \<Rightarrow> Box" where
  "Box_of p1 p2 = \<lparr>min_pt = min3 p1 p2, max_pt = max3 p1 p2\<rparr>"

text \<open>\<^verbatim>\<open>Contains(box)\<close>; the receiver is the first argument.\<close>

definition Contains :: "Box \<Rightarrow> Box \<Rightarrow> bool" where
  "Contains this box =
     (all_greaterThanEqual (min_pt box) (min_pt this) \<and>
      all_greaterThanEqual (max_pt this) (max_pt box))"

text \<open>\<^verbatim>\<open>void Union(const glm::vec3 p)\<close> mutates the receiver; the model returns it.\<close>

definition Union_pt :: "Box \<Rightarrow> vec3 \<Rightarrow> Box" where
  "Union_pt this p = this\<lparr>min_pt := min3 (min_pt this) p, max_pt := max3 (max_pt this) p\<rparr>"

text \<open>\<^verbatim>\<open>Box Union(const Box& box) const\<close>.\<close>

definition Union_box :: "Box \<Rightarrow> Box \<Rightarrow> Box" where
  "Union_box this box =
     \<lparr>min_pt = min3 (min_pt this) (min_pt box), max_pt = max3 (max_pt this) (max_pt box)\<rparr>"

text \<open>\<^verbatim>\<open>bool DoesOverlap(const Box& box) const\<close>.\<close>

definition DoesOverlap :: "Box \<Rightarrow> Box \<Rightarrow> bool" where
  "DoesOverlap this box =
     (fle (vx (min_pt this)) (vx (max_pt box)) \<and> fle (vy (min_pt this)) (vy (max_pt box)) \<and>
      fle (vz (min_pt this)) (vz (max_pt box)) \<and> fge (vx (max_pt this)) (vx (min_pt box)) \<and>
      fge (vy (max_pt this)) (vy (min_pt box)) \<and> fge (vz (max_pt this)) (vz (min_pt box)))"

text \<open>\<^verbatim>\<open>bool DoesOverlap(glm::vec3 p) const\<close>, "projected in z".\<close>

definition DoesOverlap_pt :: "Box \<Rightarrow> vec3 \<Rightarrow> bool" where
  "DoesOverlap_pt this p =
     (fle (vx p) (vx (max_pt this)) \<and> fge (vx p) (vx (min_pt this)) \<and>
      fle (vy p) (vy (max_pt this)) \<and> fge (vy p) (vy (min_pt this)))"

text \<open>
  \<^verbatim>\<open>Box Transform(const glm::mat4x3& transform) const\<close>: both corners are transformed and
  the result is their componentwise minimum and maximum.
\<close>

definition Transform :: "Box \<Rightarrow> mat4x3 \<Rightarrow> Box" where
  "Transform this transform =
     (let minT = transform_point transform (min_pt this);
          maxT = transform_point transform (max_pt this)
      in \<lparr>min_pt = min3 minT maxT, max_pt = max3 minT maxT\<rparr>)"

text \<open>\<^verbatim>\<open>Box operator+(glm::vec3 shift) const\<close> and \<^verbatim>\<open>Box& operator+=(glm::vec3 shift)\<close>.\<close>

definition Box_plus :: "Box \<Rightarrow> vec3 \<Rightarrow> Box" where
  "Box_plus this shift = \<lparr>min_pt = add3 (min_pt this) shift, max_pt = add3 (max_pt this) shift\<rparr>"

definition Box_plus_assign :: "Box \<Rightarrow> vec3 \<Rightarrow> Box" where
  "Box_plus_assign this shift =
     this\<lparr>min_pt := add3 (min_pt this) shift, max_pt := add3 (max_pt this) shift\<rparr>"

text \<open>\<^verbatim>\<open>Box operator*(glm::vec3 scale) const\<close> and \<^verbatim>\<open>Box& operator*=(glm::vec3 scale)\<close>.\<close>

definition Box_times :: "Box \<Rightarrow> vec3 \<Rightarrow> Box" where
  "Box_times this scale = \<lparr>min_pt = mul3 (min_pt this) scale, max_pt = mul3 (max_pt this) scale\<rparr>"

definition Box_times_assign :: "Box \<Rightarrow> vec3 \<Rightarrow> Box" where
  "Box_times_assign this scale =
     this\<lparr>min_pt := mul3 (min_pt this) scale, max_pt := mul3 (max_pt this) scale\<rparr>"

text \<open>\<^verbatim>\<open>bool isFinite() const\<close>: \<^verbatim>\<open>glm::all(glm::isfinite(min)) && glm::all(glm::isfinite(max))\<close>.\<close>

definition all_isfinite :: "vec3 \<Rightarrow> bool" where
  "all_isfinite v = (isfinite (vx v) \<and> isfinite (vy v) \<and> isfinite (vz v))"

definition isFinite :: "Box \<Rightarrow> bool" where
  "isFinite this = (all_isfinite (min_pt this) \<and> all_isfinite (max_pt this))"

section \<open>Mesh relation\<close>

record BaryRef =
  meshID :: int
  tri :: int
  vertBary :: ivec3

record MeshRelation =
  barycentric :: "vec3 list"
  triBary :: "BaryRef list"

text \<open>
  \<^verbatim>\<open>glm::vec3 UVW(int tri, int vert)\<close>.  The subscripts \<^verbatim>\<open>triBary[tri]\<close>,
  \<^verbatim>\<open>vertBary[vert]\<close>, \<^verbatim>\<open>uvw[idx + 3]\<close> and \<^verbatim>\<open>barycentric[idx]\<close> are unchecked in the
  source; an index out of range has no defined result and is \<open>None\<close> here.
\<close>

definition UVW :: "MeshRelation \<Rightarrow> int \<Rightarrow> int \<Rightarrow> vec3 option" where
  "UVW m tri_i vert =
     (if tri_i < 0 \<or> int (length (triBary m)) \<le> tri_i then None
      else case ivec3_at (vertBary (triBary m ! nat tri_i)) vert of
             None \<Rightarrow> None
           | Some idx \<Rightarrow>
               if idx < 0 then vec3_set (splat3 (Fin 0)) (idx + 3) (Fin 1)
               else if int (length (barycentric m)) \<le> idx then None
               else Some (barycentric m ! nat idx))"

section \<open>Mesh export\<close>

datatype vec4 = Vec4 float float float float

record Mesh =
  vertPos :: "vec3 list"
  vertNormal :: "vec3 list"
  triVerts :: "ivec3 list"
  halfedgeTangent :: "vec4 list"

text \<open>
  Modelled from the spec: the declarations of \<^verbatim>\<open>ExportOptions\<close> and of its material
  (header \<^verbatim>\<open>meshIO.h\<close>) are not among the sources.  The export configuration has the
  option \<^verbatim>\<open>faceted\<close>, a vertex colour array and a material descriptor with scalar
  roughness and metalness and an RGBA base colour; \<^verbatim>\<open>ExportMesh\<close> reads them as
  \<^verbatim>\<open>options.faceted\<close>, \<^verbatim>\<open>options.mat.vertColor\<close>, \<^verbatim>\<open>options.mat.roughness\<close>,
  \<^verbatim>\<open>options.mat.metalness\<close> and \<^verbatim>\<open>options.mat.color\<close>.
\<close>

record Material =
  roughness :: float
  metalness :: float
  color :: vec4
  vertColor :: "vec4 list"

record ExportOptions =
  faceted :: bool
  mat :: Material

text \<open>
  What \<^verbatim>\<open>ExportMesh\<close> stores in the Assimp scene it builds: one material, and one
  triangle mesh with its vertices, optional normals, optional colours and faces.  Face
  indices are converted from \<^verbatim>\<open>int\<close> to \<^verbatim>\<open>unsigned int\<close>.
\<close>

record aiScene =
  mRoughness :: float
  mMetalness :: float
  mBaseColor :: vec4
  mVertices :: "vec3 list"
  mNormals :: "vec3 list option"
  mColors :: "vec4 list option"
  mFaces :: "(nat \<times> nat \<times> nat) list"

datatype aiReturn = AI_SUCCESS | AI_FAILURE | AI_OUTOFMEMORY

text \<open>The exceptions of the source; \<open>userErr\<close> carries the message of the assertion.\<close>

datatype error = userErr string | topologyErr string | geometryErr string | logicErr string

text \<open>
  The state outside the program: the lines written to standard output and the file
  system, which only the Assimp exporter touches.
\<close>

record 'fs world =
  console :: "string list"
  files :: 'fs

text \<open>\<^verbatim>\<open>filename.substr(filename.find_last_of(".") + 1)\<close>: the whole name when it has no dot.\<close>

definition file_ext :: "string \<Rightarrow> string" where
  "file_ext filename = rev (takeWhile (\<lambda>c. c \<noteq> CHR ''.'') (rev filename))"

text \<open>The axis permutation for Y-up formats: \<^verbatim>\<open>isYup ? aiVector3D(v.y, v.z, v.x) : aiVector3D(v.x, v.y, v.z)\<close>.\<close>

definition to_ai :: "bool \<Rightarrow> vec3 \<Rightarrow> vec3" where
  "to_ai isYup v = (if isYup then Vec3 (vy v) (vz v) (vx v) else v)"

definition uint_of_int :: "int \<Rightarrow> nat" where
  "uint_of_int i = nat (i mod 2 ^ 32)"

fun face_of :: "ivec3 \<Rightarrow> nat \<times> nat \<times> nat" where
  "face_of (IVec3 a b c) = (uint_of_int a, uint_of_int b, uint_of_int c)"

text \<open>
  \<^verbatim>\<open>void ExportMesh(const std::string& filename, const Mesh& mesh, const ExportOptions& options)\<close>.
  The Assimp exporter is a parameter: \<open>exporter scene ext filename\<close> takes the file system
  to the return code, the error string and the file system after the call.  A violated
  \<^verbatim>\<open>ALWAYS_ASSERT\<close> throws, which ends the function at that point.  After the two
  length checks the loops over the vertices read \<^verbatim>\<open>vertNormal\<close> and \<^verbatim>\<open>vertColor\<close>
  at the indices of \<^verbatim>\<open>vertPos\<close>, that is, all of their elements.  The element counts
  are taken to fit the 32-bit counters of the scene.
\<close>

definition ExportMesh ::
  "(aiScene \<Rightarrow> string \<Rightarrow> string \<Rightarrow> 'fs \<Rightarrow> aiReturn \<times> string \<times> 'fs) \<Rightarrow>
   string \<Rightarrow> Mesh \<Rightarrow> ExportOptions \<Rightarrow> 'fs world \<Rightarrow> (error + unit) \<times> 'fs world" where
  "ExportMesh exporter filename mesh options w =
     (if length (triVerts mesh) = 0 then
        (Inr (), w\<lparr>console := console w @
           [filename @ '' was not saved because the input mesh was empty.'']\<rparr>)
      else
        let ext0 = file_ext filename;
            isYup = (ext0 = ''glb'' \<or> ext0 = ''gltf'');
            ext1 = (if ext0 = ''glb'' then ''glb2'' else ext0);
            ext = (if ext1 = ''gltf'' then ''gltf2'' else ext1)
        in if \<not> faceted options \<and> length (vertNormal mesh) \<noteq> length (vertPos mesh) then
             (Inl (userErr
                ''vertNormal must be the same length as vertPos when faceted is false.''), w)
           else if vertColor (mat options) \<noteq> [] \<and>
                   length (vertPos mesh) \<noteq> length (vertColor (mat options)) then
             (Inl (userErr ''If present, vertColor must be the same length as vertPos.''), w)
           else
             let scene = \<lparr>mRoughness = roughness (mat options),
                          mMetalness = metalness (mat options),
                          mBaseColor = color (mat options),
                          mVertices = map (to_ai isYup) (vertPos mesh),
                          mNormals = (if \<not> faceted options
                                      then Some (map (to_ai isYup) (vertNormal mesh)) else None),
                          mColors = (if vertColor (mat options) \<noteq> []
                                     then Some (vertColor (mat options)) else None),
                          mFaces = map face_of (triVerts mesh)\<rparr>
             in case exporter scene ext filename (files w) of
                  (result, err, fs') \<Rightarrow>
                    if result = AI_SUCCESS then (Inr (), w\<lparr>files := fs'\<rparr>)
                    else (Inl (userErr err), w\<lparr>files := fs'\<rparr>))"

section \<open>Predicates used to state the properties\<close>

definition no_nan3 :: "vec3 \<Rightarrow> bool" where
  "no_nan3 v = (vx v \<noteq> NaN \<and> vy v \<noteq> NaN \<and> vz v \<noteq> NaN)"

definition Box_no_nan :: "Box \<Rightarrow> bool" where
  "Box_no_nan b = (no_nan3 (min_pt b) \<and> no_nan3 (max_pt b))"

text \<open>\<open>min \<le> max\<close> componentwise.\<close>

definition le3 :: "vec3 \<Rightarrow> vec3 \<Rightarrow> bool" where
  "le3 a b = (fle (vx a) (vx b) \<and> fle (vy a) (vy b) \<and> fle (vz a) (vz b))"

definition Box_ordered :: "Box \<Rightarrow> bool" where
  "Box_ordered b = le3 (min_pt b) (max_pt b)"

text \<open>A point lies in the closed box.\<close>

definition in_Box :: "vec3 \<Rightarrow> Box \<Rightarrow> bool" where
  "in_Box p b = (le3 (min_pt b) p \<and> le3 p (max_pt b))"

text \<open>The vector with 1 in component \<open>j\<close> and 0 elsewhere, and the sum of the components.\<close>

definition one_hot :: "int \<Rightarrow> vec3" where
  "one_hot j = Vec3 (if j = 0 then Fin 1 else Fin 0) (if j = 1 then Fin 1 else Fin 0)
                    (if j = 2 then Fin 1 else Fin 0)"

definition bary_sum :: "vec3 \<Rightarrow> float" where
  "bary_sum v = fadd (fadd (vx v) (vy v)) (vz v)"

text \<open>Every component of a scale vector is at least 0.\<close>

definition nonneg3 :: "vec3 \<Rightarrow> bool" where
  "nonneg3 v = le3 (splat3 (Fin 0)) v"

section \<open>Comparisons and \<^verbatim>\<open>glm::min\<close>/\<^verbatim>\<open>glm::max\<close>\<close>

lemma fle_refl: "a \<noteq> NaN \<Longrightarrow> fle a a"
  by (cases a) simp_all

lemma fle_trans: "fle a b \<Longrightarrow> fle b c \<Longrightarrow> fle a c"
  by (cases a; cases b; cases c) simp_all

lemma fle_not_nan: "fle a b \<Longrightarrow> a \<noteq> NaN \<and> b \<noteq> NaN"
  by (cases a; cases b) simp_all

lemma flt_iff_not_fle: "a \<noteq> NaN \<Longrightarrow> b \<noteq> NaN \<Longrightarrow> flt a b \<longleftrightarrow> \<not> fle b a"
  by (cases a; cases b) auto

lemma fle_total: "a \<noteq> NaN \<Longrightarrow> b \<noteq> NaN \<Longrightarrow> fle a b \<or> fle b a"
  by (cases a; cases b) auto

lemma glm_min_le1: "a \<noteq> NaN \<Longrightarrow> fle (glm_min a b) a"
  by (cases a; cases b) (auto simp: glm_min_def)

lemma glm_min_le2: "a \<noteq> NaN \<Longrightarrow> b \<noteq> NaN \<Longrightarrow> fle (glm_min a b) b"
  by (cases a; cases b) (auto simp: glm_min_def)

lemma glm_max_ge1: "a \<noteq> NaN \<Longrightarrow> fle a (glm_max a b)"
  by (cases a; cases b) (auto simp: glm_max_def)

lemma glm_max_ge2: "a \<noteq> NaN \<Longrightarrow> b \<noteq> NaN \<Longrightarrow> fle b (glm_max a b)"
  by (cases a; cases b) (auto simp: glm_max_def)

lemma glm_min_commute: "a \<noteq> NaN \<Longrightarrow> b \<noteq> NaN \<Longrightarrow> glm_min a b = glm_min b a"
  by (cases a; cases b) (auto simp: glm_min_def)

lemma glm_max_commute: "a \<noteq> NaN \<Longrightarrow> b \<noteq> NaN \<Longrightarrow> glm_max a b = glm_max b a"
  by (cases a; cases b) (auto simp: glm_max_def)

lemma glm_min_assoc:
  "a \<noteq> NaN \<Longrightarrow> b \<noteq> NaN \<Longrightarrow> c \<noteq> NaN \<Longrightarrow>
   glm_min (glm_min a b) c = glm_min a (glm_min b c)"
  by (cases a; cases b; cases c) (auto simp: glm_min_def)

lemma glm_max_assoc:
  "a \<noteq> NaN \<Longrightarrow> b \<noteq> NaN \<Longrightarrow> c \<noteq> NaN \<Longrightarrow>
   glm_max (glm_max a b) c = glm_max a (glm_max b c)"
  by (cases a; cases b; cases c) (auto simp: glm_max_def)

lemma glm_min_PInf: "b \<noteq> NaN \<Longrightarrow> glm_min PInf b = b"
  by (cases b) (auto simp: glm_min_def)

lemma glm_max_NInf: "b \<noteq> NaN \<Longrightarrow> glm_max NInf b = b"
  by (cases b) (auto simp: glm_max_def)

lemma glm_min_not_nan: "a \<noteq> NaN \<Longrightarrow> glm_min a b \<noteq> NaN"
  by (cases a; cases b) (auto simp: glm_min_def)

lemma glm_max_not_nan: "a \<noteq> NaN \<Longrightarrow> glm_max a b \<noteq> NaN"
  by (cases a; cases b) (auto simp: glm_max_def)

section \<open>Properties of rounding\<close>

lemma rne_of_int [simp]: "rne (of_int n) = n"
  by (simp add: rne_def)

lemma rne_bounds: "r - 1 / 2 \<le> of_int (rne r) \<and> of_int (rne r) \<le> r + 1 / 2"
  unfolding rne_def Let_def by (auto; linarith)

lemma rne_mono:
  assumes "r \<le> s"
  shows "rne r \<le> rne s"
proof (cases "\<lfloor>r\<rfloor> = \<lfloor>s\<rfloor>")
  case True
  with assms show ?thesis
    unfolding rne_def Let_def by (auto; linarith)
next
  case False
  with assms have lt: "\<lfloor>r\<rfloor> < \<lfloor>s\<rfloor>"
    by (simp add: floor_mono order.not_eq_order_implies_strict)
  have "rne r \<le> \<lfloor>r\<rfloor> + 1"
    unfolding rne_def Let_def by auto
  moreover have "\<lfloor>s\<rfloor> \<le> rne s"
    unfolding rne_def Let_def by auto
  ultimately show ?thesis
    using lt by linarith
qed

lemma rne_uminus: "rne (- r) = - rne r"
proof (cases "r \<in> \<int>")
  case True
  then obtain n where "r = of_int n"
    by (auto elim: Ints_cases)
  then show ?thesis
    by (simp flip: of_int_minus)
next
  case False
  then have "r \<noteq> of_int \<lfloor>r\<rfloor>"
    by (metis Ints_of_int)
  then have fl: "\<lfloor>- r\<rfloor> = - \<lfloor>r\<rfloor> - 1"
    by (simp add: floor_minus ceiling_altdef)
  show ?thesis
    unfolding rne_def Let_def fl by (auto; linarith?)
qed


lemma ulp_exp_uminus [simp]: "ulp_exp (- r) = ulp_exp r"
  by (simp add: ulp_exp_def)

lemma rval_uminus: "rval (- r) = - rval r"
  by (simp add: rval_def rne_uminus)

lemma rnd32_uminus: "rnd32 (- r) = fneg (rnd32 r)"
  by (simp add: rnd32_def rval_uminus fneg_def)

lemma rnd32_not_NaN [simp]: "rnd32 r \<noteq> NaN"
  by (simp add: rnd32_def)

lemma floor_log2_bounds:
  assumes "0 < r"
  shows "2 powr (of_int \<lfloor>log 2 r\<rfloor>) \<le> r" and "r < 2 powr (of_int \<lfloor>log 2 r\<rfloor> + 1)"
proof -
  have "2 powr (of_int \<lfloor>log 2 r\<rfloor>) \<le> 2 powr (log 2 r)"
    by (rule powr_mono) simp_all
  then show "2 powr (of_int \<lfloor>log 2 r\<rfloor>) \<le> r"
    using assms by simp
  have "log 2 r < of_int \<lfloor>log 2 r\<rfloor> + 1"
    by linarith
  then have "2 powr (log 2 r) < 2 powr (of_int \<lfloor>log 2 r\<rfloor> + 1)"
    by (rule powr_less_mono) simp
  then show "r < 2 powr (of_int \<lfloor>log 2 r\<rfloor> + 1)"
    using assms by simp
qed

lemma ulp_exp_mono:
  assumes "0 < r" and "r \<le> s"
  shows "ulp_exp r \<le> ulp_exp s"
proof -
  have "log 2 r \<le> log 2 s"
    using assms by simp
  then have "\<lfloor>log 2 r\<rfloor> \<le> \<lfloor>log 2 s\<rfloor>"
    by (rule floor_mono)
  then show ?thesis
    using assms by (simp add: ulp_exp_def)
qed

lemma rval_nonneg:
  assumes "0 \<le> r"
  shows "0 \<le> rval r"
proof -
  have "0 \<le> r / 2 powr (of_int (ulp_exp r))"
    using assms by simp
  then have "rne 0 \<le> rne (r / 2 powr (of_int (ulp_exp r)))"
    by (rule rne_mono)
  then have "0 \<le> rne (r / 2 powr (of_int (ulp_exp r)))"
    using rne_of_int [of 0] by simp
  then show ?thesis
    by (simp add: rval_def)
qed

lemma rval_upper:
  assumes "0 < r"
  shows "rval r \<le> 2 powr (of_int (ulp_exp r) + 24)"
proof -
  let ?e = "ulp_exp r"
  have "\<lfloor>log 2 r\<rfloor> - 23 \<le> ?e"
    using assms by (simp add: ulp_exp_def)
  then have "of_int \<lfloor>log 2 r\<rfloor> + 1 \<le> (of_int ?e + 24 :: real)"
    by linarith
  then have "(2::real) powr (of_int \<lfloor>log 2 r\<rfloor> + 1) \<le> 2 powr (of_int ?e + 24)"
    by (intro powr_mono) simp_all
  with floor_log2_bounds(2) [OF assms] have "r \<le> 2 powr (of_int ?e + 24)"
    by linarith
  then have "r / 2 powr (of_int ?e) \<le> 2 powr (of_int ?e + 24) / 2 powr (of_int ?e)"
    by (simp add: divide_right_mono)
  also have "\<dots> = 2 ^ 24"
    by (simp add: powr_add)
  finally have "rne (r / 2 powr (of_int ?e)) \<le> rne (2 ^ 24)"
    by (rule rne_mono)
  also have "rne (2 ^ 24) = 2 ^ 24"
    using rne_of_int [of "2 ^ 24"] by simp
  finally have "real_of_int (rne (r / 2 powr (of_int ?e))) \<le> real_of_int (2 ^ 24)"
    by (simp only: of_int_le_iff)
  then have "real_of_int (rne (r / 2 powr (of_int ?e))) \<le> 2 ^ 24"
    by simp
  then have "rval r \<le> 2 ^ 24 * 2 powr (of_int ?e)"
    unfolding rval_def by (intro mult_right_mono) simp_all
  then show ?thesis
    by (simp add: powr_add mult.commute)
qed

lemma rval_lower:
  assumes "0 < r" and "- 149 < ulp_exp r"
  shows "2 powr (of_int (ulp_exp r) + 23) \<le> rval r"
proof -
  let ?e = "ulp_exp r"
  have e: "?e = \<lfloor>log 2 r\<rfloor> - 23"
    using assms by (simp add: ulp_exp_def max_def split: if_splits)
  then have "of_int ?e + 23 = (of_int \<lfloor>log 2 r\<rfloor> :: real)"
    by simp
  with floor_log2_bounds(1) [OF assms(1)] have "2 powr (of_int ?e + 23) \<le> r"
    by simp
  then have "2 powr (of_int ?e + 23) / 2 powr (of_int ?e) \<le> r / 2 powr (of_int ?e)"
    by (simp add: divide_right_mono)
  moreover have "2 powr (of_int ?e + 23) / 2 powr (of_int ?e) = (2 ^ 23 :: real)"
    by (simp add: powr_add)
  ultimately have "rne (2 ^ 23) \<le> rne (r / 2 powr (of_int ?e))"
    by (intro rne_mono) simp
  moreover have "rne (2 ^ 23) = 2 ^ 23"
    using rne_of_int [of "2 ^ 23"] by simp
  ultimately have "(2 ^ 23 :: int) \<le> rne (r / 2 powr (of_int ?e))"
    by simp
  then have "real_of_int (2 ^ 23) \<le> real_of_int (rne (r / 2 powr (of_int ?e)))"
    by (simp only: of_int_le_iff)
  then have "2 ^ 23 \<le> real_of_int (rne (r / 2 powr (of_int ?e)))"
    by simp
  then have "2 ^ 23 * 2 powr (of_int ?e) \<le> rval r"
    unfolding rval_def by (intro mult_right_mono) simp_all
  then show ?thesis
    by (simp add: powr_add mult.commute)
qed

lemma rval_mono_pos:
  assumes "0 < r" and "r \<le> s"
  shows "rval r \<le> rval s"
proof (cases "ulp_exp r = ulp_exp s")
  case True
  have "r / 2 powr (of_int (ulp_exp s)) \<le> s / 2 powr (of_int (ulp_exp s))"
    using assms by (simp add: divide_right_mono)
  then have "rne (r / 2 powr (of_int (ulp_exp s))) \<le> rne (s / 2 powr (of_int (ulp_exp s)))"
    by (rule rne_mono)
  then show ?thesis
    unfolding rval_def True by (intro mult_right_mono) simp_all
next
  case False
  with ulp_exp_mono [OF assms] have lt: "ulp_exp r < ulp_exp s"
    by simp
  have "- 149 \<le> ulp_exp r"
    by (simp add: ulp_exp_def)
  with lt have "- 149 < ulp_exp s"
    by simp
  moreover have "0 < s"
    using assms by simp
  ultimately have lo: "2 powr (of_int (ulp_exp s) + 23) \<le> rval s"
    by (intro rval_lower)
  have "(of_int (ulp_exp r) + 24 :: real) \<le> of_int (ulp_exp s) + 23"
    using lt by linarith
  then have "(2::real) powr (of_int (ulp_exp r) + 24) \<le> 2 powr (of_int (ulp_exp s) + 23)"
    by (intro powr_mono) simp_all
  with rval_upper [OF assms(1)] lo show ?thesis
    by linarith
qed

lemma rnd32_mono_pos:
  assumes "0 < r" and "r \<le> s"
  shows "fle (rnd32 r) (rnd32 s)"
proof -
  have "0 \<le> rval r" "0 \<le> rval s"
    using assms by (simp_all add: rval_nonneg)
  with rval_mono_pos [OF assms] assms show ?thesis
    by (simp add: rnd32_def)
qed

lemma rnd32_nonneg:
  assumes "0 \<le> r"
  shows "fle (Fin 0) (rnd32 r)"
  using assms rval_nonneg [OF assms] by (simp add: rnd32_def)

lemma fle_fneg: "fle (fneg a) (fneg b) = fle b a"
  by (cases a; cases b) (simp_all add: fneg_def)

lemma rnd32_nonpos:
  assumes "r \<le> 0"
  shows "fle (rnd32 r) (Fin 0)"
proof -
  have "fle (Fin 0) (rnd32 (- r))"
    using assms by (intro rnd32_nonneg) simp
  then have "fle (fneg (Fin 0)) (fneg (rnd32 r))"
    by (simp add: rnd32_uminus fneg_def)
  then show ?thesis
    by (simp only: fle_fneg)
qed

lemma rnd32_mono:
  assumes "r \<le> s"
  shows "fle (rnd32 r) (rnd32 s)"
proof -
  consider "0 < r" | "r \<le> 0" "0 \<le> s" | "s < 0"
    using assms by linarith
  then show ?thesis
  proof cases
    case 1
    then show ?thesis
      using assms by (rule rnd32_mono_pos)
  next
    case 2
    then show ?thesis
      using rnd32_nonpos rnd32_nonneg fle_trans by blast
  next
    case 3
    then have "fle (rnd32 (- s)) (rnd32 (- r))"
      using assms by (intro rnd32_mono_pos) simp_all
    then show ?thesis
      by (simp add: rnd32_uminus fle_fneg)
  qed
qed

lemma rnd32_exact:
  assumes r: "r = of_int m * 2 powr (of_int e)"
    and m: "\<bar>m\<bar> < 2 ^ 24" and e: "- 149 \<le> e" "e \<le> 104"
  shows "rnd32 r = Fin r"
proof (cases "r = 0")
  case True
  then show ?thesis by (simp add: rnd32_def)
next
  case False
  then have pos: "0 < \<bar>r\<bar>" by simp
  have "\<bar>r\<bar> = of_int \<bar>m\<bar> * 2 powr (of_int e)"
    by (simp add: r abs_mult)
  also have "\<dots> < 2 ^ 24 * 2 powr (of_int e)"
  proof -
    have "real_of_int \<bar>m\<bar> < real_of_int (2 ^ 24)"
      using m by (simp only: of_int_less_iff)
    then show ?thesis by simp
  qed
  also have "\<dots> = 2 powr (of_int e + 24)"
    by (simp add: powr_add)
  finally have up: "\<bar>r\<bar> < 2 powr (of_int e + 24)" .
  have "2 powr (of_int \<lfloor>log 2 \<bar>r\<bar>\<rfloor>) < (2::real) powr (of_int e + 24)"
    using floor_log2_bounds(1) [OF pos] up by linarith
  then have "real_of_int \<lfloor>log 2 \<bar>r\<bar>\<rfloor> < of_int e + 24"
    by simp
  then have "\<lfloor>log 2 \<bar>r\<bar>\<rfloor> - 23 \<le> e"
    by linarith
  with e have le: "ulp_exp r \<le> e"
    by (simp add: ulp_exp_def)
  define u where "u = ulp_exp r"
  define k where "k = nat (e - u)"
  have ek: "of_int e = (of_int u + real k)"
    using le by (simp add: k_def u_def)
  have ru: "r = of_int m * (2 powr (of_int u) * 2 ^ k)"
    unfolding r ek by (simp add: powr_add powr_realpow)
  have "r / 2 powr (of_int u) = of_int m * 2 ^ k"
    by (subst ru) simp
  also have "\<dots> = of_int (m * 2 ^ k)"
    by simp
  finally have "rne (r / 2 powr (of_int u)) = m * 2 ^ k"
    by (simp only: rne_of_int)
  then have "rval r = of_int (m * 2 ^ k) * 2 powr (of_int u)"
    by (simp add: rval_def u_def)
  also have "\<dots> = of_int m * (2 powr (of_int u) * 2 ^ k)"
    by simp
  also have "\<dots> = r"
    by (rule ru [symmetric])
  finally have rv: "rval r = r" .
  have "(2::real) powr (of_int e + 24) \<le> 2 powr 128"
    using e by (intro powr_mono) simp_all
  with up have "\<bar>r\<bar> < 2 ^ 128"
    by simp
  with rv False show ?thesis
    by (simp add: rnd32_def)
qed

lemma rnd32_of_int:
  assumes "\<bar>n\<bar> < 2 ^ 24"
  shows "rnd32 (of_int n) = Fin (of_int n)"
  using rnd32_exact [of "of_int n" n 0] assms by simp

lemma rnd32_0 [simp]: "rnd32 0 = Fin 0"
  by (simp add: rnd32_def)

lemma rnd32_1 [simp]: "rnd32 1 = Fin 1"
  using rnd32_of_int [of 1] by simp

lemma rnd32_numeral:
  assumes "numeral w < (2 ^ 24 :: int)"
  shows "rnd32 (numeral w) = Fin (numeral w)" "rnd32 (- numeral w) = Fin (- numeral w)"
  using rnd32_of_int [of "numeral w"] rnd32_of_int [of "- numeral w"] assms by simp_all

lemma rnd32_between:
  assumes "0 \<le> r" and "r \<le> c" and "rnd32 c = Fin c"
  shows "\<exists>t. rnd32 r = Fin t \<and> 0 \<le> t \<and> t \<le> c"
proof -
  have "fle (Fin 0) (rnd32 r)" "fle (rnd32 r) (Fin c)"
    using rnd32_nonneg [OF assms(1)] rnd32_mono [OF assms(2)] assms(3) by simp_all
  then show ?thesis
    by (cases "rnd32 r") simp_all
qed

section \<open>Properties of the arithmetic operations\<close>

lemma fneg_simps [simp]:
  "fneg NaN = NaN" "fneg NInf = PInf" "fneg PInf = NInf" "fneg (Fin u) = Fin (- u)"
  by (simp_all add: fneg_def)

lemma fneg_eq_NaN [simp]: "fneg a = NaN \<longleftrightarrow> a = NaN"
  by (cases a) simp_all

lemma fmul_commute: "fmul a b = fmul b a"
  by (cases a; cases b) (simp_all add: mult.commute)

lemma fadd_commute: "fadd a b = fadd b a"
  by (cases a; cases b) (simp_all add: add.commute)

lemma fadd_NaN_D: "fadd a b \<noteq> NaN \<Longrightarrow> a \<noteq> NaN \<and> b \<noteq> NaN"
  by (cases a; cases b) simp_all

lemma fmul_NaN_D: "fmul a b \<noteq> NaN \<Longrightarrow> a \<noteq> NaN \<and> b \<noteq> NaN"
  by (cases a; cases b) simp_all

lemma fsub_NaN_D: "fsub a b \<noteq> NaN \<Longrightarrow> a \<noteq> NaN \<and> b \<noteq> NaN"
  unfolding fsub_def by (drule fadd_NaN_D) simp

lemma fsub_swap: "fsub a b = fneg (fsub b a)"
proof (cases a; cases b)
  fix u v
  assume "a = Fin u" and "b = Fin v"
  then show ?thesis
    using rnd32_uminus [of "v - u"] by (simp add: fsub_def)
qed (simp_all add: fsub_def)

lemma fmul_fneg_fneg: "fmul (fneg a) (fneg b) = fmul a b"
  by (cases a; cases b) auto

lemma fmul_nonneg_nonneg:
  "fle (Fin 0) a \<Longrightarrow> fle (Fin 0) b \<Longrightarrow> fmul a b \<noteq> NaN \<Longrightarrow> fle (Fin 0) (fmul a b)"
  by (cases a; cases b) (auto simp: rnd32_nonneg split: if_splits)

lemma fmul_nonneg_nonpos:
  "fle (Fin 0) a \<Longrightarrow> fle b (Fin 0) \<Longrightarrow> fmul a b \<noteq> NaN \<Longrightarrow> fle (fmul a b) (Fin 0)"
  by (cases a; cases b) (auto simp: rnd32_nonpos mult_nonneg_nonpos split: if_splits)

lemma fmul_nonpos_nonpos:
  "fle a (Fin 0) \<Longrightarrow> fle b (Fin 0) \<Longrightarrow> fmul a b \<noteq> NaN \<Longrightarrow> fle (Fin 0) (fmul a b)"
  by (cases a; cases b) (auto simp: rnd32_nonneg mult_nonpos_nonpos split: if_splits)

lemma fmul_self_nonneg: "a \<noteq> NaN \<Longrightarrow> fle (Fin 0) (fmul a a)"
  by (cases a) (simp_all add: rnd32_nonneg)

lemma fadd_nonneg: "fle (Fin 0) a \<Longrightarrow> fle (Fin 0) b \<Longrightarrow> fle (Fin 0) (fadd a b)"
  by (cases a; cases b) (simp_all add: rnd32_nonneg)

lemma glm_max_nonneg: "fle (Fin 0) a \<Longrightarrow> fle (Fin 0) b \<Longrightarrow> fle (Fin 0) (glm_max a b)"
  by (simp add: glm_max_def)

lemma fle_zero_cases: "t \<noteq> NaN \<Longrightarrow> fle (Fin 0) t \<or> fle t (Fin 0)"
  by (cases t) auto

lemma fmul_fmul_nonneg:
  assumes "fle (Fin 0) b" and "fmul (fmul b t) t \<noteq> NaN"
  shows "fle (Fin 0) (fmul (fmul b t) t)"
proof -
  from assms(2) have bt: "fmul b t \<noteq> NaN" and t: "t \<noteq> NaN"
    using fmul_NaN_D by blast+
  from fle_zero_cases [OF t] show ?thesis
  proof
    assume p: "fle (Fin 0) t"
    from assms(1) p bt have "fle (Fin 0) (fmul b t)"
      by (rule fmul_nonneg_nonneg)
    then show ?thesis
      using p assms(2) by (rule fmul_nonneg_nonneg)
  next
    assume n: "fle t (Fin 0)"
    from assms(1) n bt have "fle (fmul b t) (Fin 0)"
      by (rule fmul_nonneg_nonpos)
    then show ?thesis
      using n assms(2) by (rule fmul_nonpos_nonpos)
  qed
qed

lemma dot2_self_nonneg:
  assumes "vx2 v \<noteq> NaN" and "vy2 v \<noteq> NaN"
  shows "fle (Fin 0) (dot2 v v)"
  using assms by (simp add: dot2_def fadd_nonneg fmul_self_nonneg)

section \<open>Orientation test\<close>

lemma CCW_unfold:
  "CCW p0 p1 p2 tol =
     (if fle (fmul (CCW_area p0 p1 p2) (CCW_area p0 p1 p2)) (fmul (fmul (CCW_base2 p0 p1 p2) tol) tol)
      then 0 else if fgt (CCW_area p0 p1 p2) (Fin 0) then 1 else - 1)"
  by (simp add: CCW_def CCW_area_def CCW_base2_def Let_def)

lemma CCW_area_swap: "CCW_area p0 p2 p1 = fneg (CCW_area p0 p1 p2)"
  unfolding CCW_area_def Let_def
  by (subst fsub_swap) (simp add: fmul_commute)

lemma CCW_area_components:
  assumes "CCW_area p0 p1 p2 \<noteq> NaN"
  shows "vx2 (sub2 p1 p0) \<noteq> NaN" "vy2 (sub2 p1 p0) \<noteq> NaN"
    "vx2 (sub2 p2 p0) \<noteq> NaN" "vy2 (sub2 p2 p0) \<noteq> NaN"
  using assms unfolding CCW_area_def Let_def
  by (auto dest!: fsub_NaN_D fmul_NaN_D)

lemma CCW_base2_nonneg:
  assumes "CCW_area p0 p1 p2 \<noteq> NaN"
  shows "fle (Fin 0) (CCW_base2 p0 p1 p2)"
  unfolding CCW_base2_def Let_def
  using CCW_area_components [OF assms] by (intro glm_max_nonneg dot2_self_nonneg)

lemma CCW_base2_swap:
  assumes "CCW_area p0 p1 p2 \<noteq> NaN"
  shows "CCW_base2 p0 p2 p1 = CCW_base2 p0 p1 p2"
proof -
  have "fle (Fin 0) (dot2 (sub2 p1 p0) (sub2 p1 p0))" "fle (Fin 0) (dot2 (sub2 p2 p0) (sub2 p2 p0))"
    using CCW_area_components [OF assms] by (simp_all add: dot2_self_nonneg)
  then have "dot2 (sub2 p1 p0) (sub2 p1 p0) \<noteq> NaN" "dot2 (sub2 p2 p0) (sub2 p2 p0) \<noteq> NaN"
    using fle_not_nan by blast+
  then show ?thesis
    unfolding CCW_base2_def Let_def by (rule glm_max_commute [symmetric])
qed

lemma CCW_area_nonzero:
  assumes a: "CCW_area p0 p1 p2 \<noteq> NaN"
    and t: "fmul (fmul (CCW_base2 p0 p1 p2) tol) tol \<noteq> NaN"
    and n: "\<not> fle (fmul (CCW_area p0 p1 p2) (CCW_area p0 p1 p2))
              (fmul (fmul (CCW_base2 p0 p1 p2) tol) tol)"
  shows "CCW_area p0 p1 p2 \<noteq> Fin 0"
proof
  assume "CCW_area p0 p1 p2 = Fin 0"
  then have "fmul (CCW_area p0 p1 p2) (CCW_area p0 p1 p2) = Fin 0"
    by simp
  moreover have "fle (Fin 0) (fmul (fmul (CCW_base2 p0 p1 p2) tol) tol)"
    using CCW_base2_nonneg [OF a] t by (rule fmul_fmul_nonneg)
  ultimately show False
    using n by simp
qed

lemma CCW_eq_Signum:
  assumes "CCW_area p0 p1 p2 \<noteq> NaN" and "fmul (fmul (CCW_base2 p0 p1 p2) tol) tol \<noteq> NaN"
  shows "CCW p0 p1 p2 tol =
     (if fle (fmul (CCW_area p0 p1 p2) (CCW_area p0 p1 p2)) (fmul (fmul (CCW_base2 p0 p1 p2) tol) tol)
      then 0 else Signum (CCW_area p0 p1 p2))"
proof (cases "fle (fmul (CCW_area p0 p1 p2) (CCW_area p0 p1 p2))
    (fmul (fmul (CCW_base2 p0 p1 p2) tol) tol)")
  case True
  then show ?thesis
    by (simp add: CCW_unfold)
next
  case False
  from CCW_area_nonzero [OF assms False] assms(1) False show ?thesis
    by (cases "CCW_area p0 p1 p2") (auto simp: CCW_unfold Signum_def fgt_def)
qed

lemma Signum_fneg: "Signum (fneg a) = - Signum a"
  by (cases a) (auto simp: Signum_def fgt_def)

lemma CCW_antisym:
  assumes "CCW_area p0 p1 p2 \<noteq> NaN" and "fmul (fmul (CCW_base2 p0 p1 p2) tol) tol \<noteq> NaN"
  shows "CCW p0 p1 p2 tol = - CCW p0 p2 p1 tol"
proof -
  note sw = CCW_area_swap [of p0 p1 p2]
  have a': "CCW_area p0 p2 p1 \<noteq> NaN"
    using assms(1) by (simp add: sw)
  have t': "fmul (fmul (CCW_base2 p0 p2 p1) tol) tol \<noteq> NaN"
    using assms by (simp add: CCW_base2_swap)
  show ?thesis
    unfolding CCW_eq_Signum [OF assms] CCW_eq_Signum [OF a' t']
    by (simp add: sw CCW_base2_swap [OF assms(1)] fmul_fneg_fneg Signum_fneg)
qed

lemma rnd32_overflow:
  assumes "2 ^ 128 \<le> r"
  shows "rnd32 r = PInf"
proof -
  have "(0::real) < 2 ^ 128"
    by simp
  with assms have pos: "0 < r"
    by linarith
  have "128 \<le> log 2 r"
    using assms pos by (simp add: le_log_iff)
  then have fl: "128 \<le> \<lfloor>log 2 r\<rfloor>"
    by (simp add: le_floor_iff)
  have ar: "\<bar>r\<bar> = r"
    using pos by simp
  have e: "ulp_exp r = \<lfloor>log 2 r\<rfloor> - 23"
    unfolding ulp_exp_def ar using fl by linarith
  with fl have "- 149 < ulp_exp r"
    by linarith
  from rval_lower [OF pos this] have "2 powr (of_int \<lfloor>log 2 r\<rfloor>) \<le> rval r"
    by (simp add: e)
  moreover have "(2::real) powr 128 \<le> 2 powr (of_int \<lfloor>log 2 r\<rfloor>)"
    using fl by (intro powr_mono) simp_all
  ultimately have "2 ^ 128 \<le> rval r"
    by simp
  then show ?thesis
    using pos by (simp add: rnd32_def)
qed

lemma rnd32_pow2:
  assumes "n \<le> 104"
  shows "rnd32 (2 ^ n) = Fin (2 ^ n)"
  using rnd32_exact [of "2 ^ n" 1 "int n"] assms by (simp add: powr_realpow)

lemma rnd32_between2:
  assumes "l \<le> r" and "r \<le> c" and "rnd32 l = Fin l" and "rnd32 c = Fin c"
  shows "\<exists>t. rnd32 r = Fin t \<and> l \<le> t \<and> t \<le> c"
proof -
  have "fle (Fin l) (rnd32 r)" "fle (rnd32 r) (Fin c)"
    using rnd32_mono [OF assms(1)] rnd32_mono [OF assms(2)] assms(3,4) by simp_all
  then show ?thesis
    by (cases "rnd32 r") simp_all
qed

lemma kTolerance_pos: "fgt kTolerance (Fin 0)"
proof -
  have "rnd32 (1 / 131072) = Fin (1 / 131072)"
    using rnd32_exact [of "1 / 131072" 1 "- 17"] by (simp add: powr_minus_divide)
  moreover have "rnd32 (1 / 65536) = Fin (1 / 65536)"
    using rnd32_exact [of "1 / 65536" 1 "- 16"] by (simp add: powr_minus_divide)
  ultimately have "\<exists>t. rnd32 (1 / 100000) = Fin t \<and> 1 / 131072 \<le> t \<and> t \<le> 1 / 65536"
    by (intro rnd32_between2) simp_all
  then show ?thesis
    by (auto simp: kTolerance_def fgt_def)
qed

lemma kTolerance_bounds: "\<exists>t. kTolerance = Fin t \<and> 0 \<le> t \<and> t \<le> 1 / 65536"
proof -
  have "rnd32 (1 / 65536) = Fin (1 / 65536)"
    using rnd32_exact [of "1 / 65536" 1 "- 16"] by (simp add: powr_minus_divide)
  then show ?thesis
    unfolding kTolerance_def by (intro rnd32_between) simp_all
qed

lemma small_threshold:
  assumes "0 \<le> b" and "b \<le> 4" and "0 \<le> t" and "t \<le> 1 / 65536"
  shows "\<exists>s. fmul (fmul (Fin b) (Fin t)) (Fin t) = Fin s \<and> 0 \<le> s \<and> s \<le> 1 / 4"
proof -
  have q: "rnd32 (1 / 4) = Fin (1 / 4)"
    using rnd32_exact [of "1 / 4" 1 "- 2"] by (simp add: powr_minus_divide)
  have "b * t \<le> 4 * (1 / 65536)"
    using assms by (intro mult_mono) simp_all
  moreover have "0 \<le> b * t"
    using assms by simp
  ultimately have "0 \<le> b * t" "b * t \<le> 1 / 4"
    by simp_all
  then have "\<exists>u. rnd32 (b * t) = Fin u \<and> 0 \<le> u \<and> u \<le> 1 / 4"
    using q by (intro rnd32_between) simp_all
  then obtain u where u: "rnd32 (b * t) = Fin u" "0 \<le> u" "u \<le> 1 / 4"
    by blast
  have "u * t \<le> (1 / 4) * (1 / 65536)"
    using u assms by (intro mult_mono) simp_all
  moreover have "0 \<le> u * t"
    using u assms by simp
  ultimately have "0 \<le> u * t" "u * t \<le> 1 / 4"
    by simp_all
  then have "\<exists>s. rnd32 (u * t) = Fin s \<and> 0 \<le> s \<and> s \<le> 1 / 4"
    using q by (intro rnd32_between) simp_all
  with u show ?thesis
    by simp
qed

lemma CCW_ccw_example:
  "CCW (Vec2 (Fin 0) (Fin 0)) (Vec2 (Fin 1) (Fin 0)) (Vec2 (Fin 0) (Fin 1)) kTolerance = 1"
proof -
  obtain t where t: "kTolerance = Fin t" "0 \<le> t" "t \<le> 1 / 65536"
    using kTolerance_bounds by blast
  obtain s where s: "fmul (fmul (Fin 1) (Fin t)) (Fin t) = Fin s" "s \<le> 1 / 4"
    using small_threshold [of 1 t] t by auto
  show ?thesis
    using s by (simp add: CCW_def sub2_def dot2_def fsub_def glm_max_def fgt_def t(1))
qed

lemma CCW_collinear_example:
  "CCW (Vec2 (Fin 0) (Fin 0)) (Vec2 (Fin 1) (Fin 0)) (Vec2 (Fin 2) (Fin 0)) kTolerance = 0"
proof -
  obtain t where t: "kTolerance = Fin t" "0 \<le> t" "t \<le> 1 / 65536"
    using kTolerance_bounds by blast
  obtain s where s: "fmul (fmul (Fin 4) (Fin t)) (Fin t) = Fin s" "0 \<le> s"
    using small_threshold [of 4 t] t by auto
  show ?thesis
    using s by (simp add: CCW_def sub2_def dot2_def fsub_def glm_max_def fgt_def t(1) rnd32_numeral)
qed

section \<open>Signum\<close>

text \<open>
  C8 (as the code has it): \<open>Signum\<close> returns \<open>-1\<close>, \<open>0\<close> or \<open>1\<close>; it returns \<open>0\<close> exactly
  when its argument is zero or not a number.
\<close>

theorem Signum_range_and_zero:
  "Signum val \<in> {-1, 0, 1} \<and> (Signum val = 0 \<longleftrightarrow> val = Fin 0 \<or> val = NaN)"
  by (cases val) (auto simp: Signum_def fgt_def)

text \<open>
  C8 as stated fails: \<open>Signum\<close> also returns \<open>0\<close> for NaN, which is not zero (both
  comparisons with NaN are false).
\<close>

theorem Signum_NaN_counterexample: "Signum NaN = 0 \<and> NaN \<noteq> Fin 0"
  by (simp add: Signum_def fgt_def)

section \<open>Barycentric lookup\<close>

lemma bary_sum_one_hot:
  assumes "0 \<le> j" and "j \<le> 2"
  shows "bary_sum (one_hot j) = Fin 1"
proof -
  from assms consider "j = 0" | "j = 1" | "j = 2"
    by linarith
  then show ?thesis
    by cases (simp_all add: bary_sum_def one_hot_def)
qed

lemma UVW_sentinel:
  assumes "0 \<le> tri_i" and "tri_i < int (length (triBary m))"
    and "ivec3_at (vertBary (triBary m ! nat tri_i)) vert = Some (- (k + 1))"
    and "0 \<le> k" and "k \<le> 2"
  shows "UVW m tri_i vert = Some (one_hot (2 - k))"
proof -
  from assms(4,5) consider "k = 0" | "k = 1" | "k = 2"
    by linarith
  then show ?thesis
    using assms(1-3) by cases (simp_all add: UVW_def splat3_def one_hot_def)
qed

lemma UVW_table:
  assumes "0 \<le> tri_i" and "tri_i < int (length (triBary m))"
    and "ivec3_at (vertBary (triBary m ! nat tri_i)) vert = Some idx"
    and "0 \<le> idx" and "idx < int (length (barycentric m))"
  shows "UVW m tri_i vert = Some (barycentric m ! nat idx)"
  using assms by (simp add: UVW_def)

text \<open>
  C1 (as the code has it): for a triangle index in range and a corner whose entry of
  \<open>vertBary\<close> is the negative value \<open>-(k+1)\<close> with \<open>k\<close> in \<open>{0,1,2}\<close>, \<open>UVW\<close> returns
  the one-hot vector whose component \<open>2 - k\<close> (the index \<open>idx + 3\<close>) is 1, and its
  components sum to 1; for a non-negative entry within the barycentric table whose table
  entry sums to 1, \<open>UVW\<close> returns that entry, which sums to 1.
\<close>

theorem UVW_one_hot_or_table:
  assumes "0 \<le> tri_i" and "tri_i < int (length (triBary m))"
    and "ivec3_at (vertBary (triBary m ! nat tri_i)) vert = Some idx"
  shows "(0 \<le> k \<and> k \<le> 2 \<and> idx = - (k + 1) \<longrightarrow>
            UVW m tri_i vert = Some (one_hot (2 - k)) \<and> bary_sum (one_hot (2 - k)) = Fin 1) \<and>
         (0 \<le> idx \<and> idx < int (length (barycentric m)) \<and>
          bary_sum (barycentric m ! nat idx) = Fin 1 \<longrightarrow>
            UVW m tri_i vert = Some (barycentric m ! nat idx) \<and>
            (\<exists>uvw. UVW m tri_i vert = Some uvw \<and> bary_sum uvw = Fin 1))"
proof (intro conjI impI)
  assume k: "0 \<le> k \<and> k \<le> 2 \<and> idx = - (k + 1)"
  with assms show "UVW m tri_i vert = Some (one_hot (2 - k))"
    by (intro UVW_sentinel) simp_all
  from k show "bary_sum (one_hot (2 - k)) = Fin 1"
    by (intro bary_sum_one_hot) simp_all
next
  assume t: "0 \<le> idx \<and> idx < int (length (barycentric m)) \<and>
    bary_sum (barycentric m ! nat idx) = Fin 1"
  with assms show u: "UVW m tri_i vert = Some (barycentric m ! nat idx)"
    by (intro UVW_table) simp_all
  with t show "\<exists>uvw. UVW m tri_i vert = Some uvw \<and> bary_sum uvw = Fin 1"
    by simp
qed

text \<open>
  The hypotheses at a relation with one triangle, whose corners hold the sentinels \<open>-1\<close>
  and \<open>-2\<close> and the index 0 of a table with the single entry \<open>(1/2, 1/4, 1/4)\<close>.
\<close>

theorem UVW_one_hot_or_table_witness:
  "UVW \<lparr>barycentric = [Vec3 (Fin (1 / 2)) (Fin (1 / 4)) (Fin (1 / 4))],
        triBary = [\<lparr>meshID = 0, tri = 0, vertBary = IVec3 (- 1) (- 2) 0\<rparr>]\<rparr> 0 1
     = Some (one_hot 1) \<and>
   bary_sum (one_hot 1) = Fin 1 \<and>
   bary_sum (Vec3 (Fin (1 / 2)) (Fin (1 / 4)) (Fin (1 / 4))) = Fin 1 \<and>
   UVW \<lparr>barycentric = [Vec3 (Fin (1 / 2)) (Fin (1 / 4)) (Fin (1 / 4))],
        triBary = [\<lparr>meshID = 0, tri = 0, vertBary = IVec3 (- 1) (- 2) 0\<rparr>]\<rparr> 0 2
     = Some (Vec3 (Fin (1 / 2)) (Fin (1 / 4)) (Fin (1 / 4)))"
proof -
  let ?m = "\<lparr>barycentric = [Vec3 (Fin (1 / 2)) (Fin (1 / 4)) (Fin (1 / 4))],
        triBary = [\<lparr>meshID = 0, tri = 0, vertBary = IVec3 (- 1) (- 2) 0\<rparr>]\<rparr>"
  have q: "rnd32 (3 / 4) = Fin (3 / 4)"
    using rnd32_exact [of "3 / 4" 3 "- 2"] by (simp add: powr_minus_divide)
  have s: "bary_sum (Vec3 (Fin (1 / 2)) (Fin (1 / 4)) (Fin (1 / 4))) = Fin 1"
    by (simp add: bary_sum_def q)
  have a: "UVW ?m 0 1 = Some (one_hot (2 - 1)) \<and> bary_sum (one_hot (2 - 1)) = Fin 1"
    using UVW_one_hot_or_table [of 0 ?m 1 "- 2" 1] by simp
  have b: "UVW ?m 0 2 = Some (barycentric ?m ! nat 0)"
    using UVW_one_hot_or_table [of 0 ?m 2 0 0] s by simp
  from a b s show ?thesis
    by simp
qed

text \<open>
  C1 as stated fails at \<open>k = 0\<close>: for the sentinel \<open>-1 = -(0+1)\<close> the code sets component
  \<open>idx + 3 = 2\<close>, so the result is \<open>(0, 0, 1)\<close> and not \<open>(1, 0, 0)\<close>.
\<close>

theorem UVW_sentinel_counterexample:
  "UVW \<lparr>barycentric = [], triBary = [\<lparr>meshID = 0, tri = 0, vertBary = IVec3 (- 1) (- 2) (- 3)\<rparr>]\<rparr>
       0 0 = Some (Vec3 (Fin 0) (Fin 0) (Fin 1)) \<and>
   UVW \<lparr>barycentric = [], triBary = [\<lparr>meshID = 0, tri = 0, vertBary = IVec3 (- 1) (- 2) (- 3)\<rparr>]\<rparr>
       0 0 \<noteq> Some (one_hot 0)"
  by (simp add: UVW_def splat3_def one_hot_def)

section \<open>Box union, containment and overlap\<close>

lemma Union_box_Contains_left:
  assumes "Box_no_nan a"
  shows "Contains (Union_box a b) a"
  using assms
  by (simp add: Contains_def Union_box_def all_greaterThanEqual_def fge_def min3_def max3_def
      Box_no_nan_def no_nan3_def glm_min_le1 glm_max_ge1)

lemma Union_box_Contains_right:
  assumes "Box_no_nan a" and "Box_no_nan b"
  shows "Contains (Union_box a b) b"
  using assms
  by (simp add: Contains_def Union_box_def all_greaterThanEqual_def fge_def min3_def max3_def
      Box_no_nan_def no_nan3_def glm_min_le2 glm_max_ge2)

lemma Union_box_commute:
  assumes "Box_no_nan a" and "Box_no_nan b"
  shows "Union_box a b = Union_box b a"
  using assms
  by (simp add: Union_box_def min3_def max3_def Box_no_nan_def no_nan3_def
      glm_min_commute glm_max_commute)

lemma Union_box_assoc:
  assumes "Box_no_nan a" and "Box_no_nan b" and "Box_no_nan c"
  shows "Union_box (Union_box a b) c = Union_box a (Union_box b c)"
  using assms
  by (simp add: Union_box_def min3_def max3_def Box_no_nan_def no_nan3_def
      glm_min_assoc glm_max_assoc)

lemma Union_box_default:
  assumes "Box_no_nan b"
  shows "Union_box Box_default b = b"
  using assms
  by (cases b) (simp add: Union_box_def Box_default_def splat3_def min3_def max3_def
      Box_no_nan_def no_nan3_def glm_min_PInf glm_max_NInf)

text \<open>
  C4 (as the code has it): for boxes none of whose coordinates is NaN, the union contains
  both operands, \<open>Union\<close> is commutative and associative, and the default-constructed box
  is its left identity.
\<close>

theorem Union_box_laws:
  assumes "Box_no_nan a" and "Box_no_nan b" and "Box_no_nan c"
  shows "Contains (Union_box a b) a \<and> Contains (Union_box a b) b \<and>
         Union_box a b = Union_box b a \<and>
         Union_box (Union_box a b) c = Union_box a (Union_box b c) \<and>
         Union_box Box_default b = b"
  using Union_box_Contains_left [OF assms(1)] Union_box_Contains_right [OF assms(1,2)]
    Union_box_commute [OF assms(1,2)] Union_box_assoc [OF assms] Union_box_default [OF assms(2)]
  by (intro conjI)

theorem Union_box_laws_witness:
  "Box_no_nan (Box_of (Vec3 (Fin 0) (Fin 0) (Fin 0)) (Vec3 (Fin 1) (Fin 1) (Fin 1))) \<and>
   Box_no_nan (Box_of (Vec3 (Fin 2) (Fin 2) (Fin 2)) (Vec3 (Fin 3) (Fin 3) (Fin 3))) \<and>
   Box_no_nan Box_default \<and>
   Contains
     (Union_box (Box_of (Vec3 (Fin 0) (Fin 0) (Fin 0)) (Vec3 (Fin 1) (Fin 1) (Fin 1)))
        (Box_of (Vec3 (Fin 2) (Fin 2) (Fin 2)) (Vec3 (Fin 3) (Fin 3) (Fin 3))))
     (Box_of (Vec3 (Fin 2) (Fin 2) (Fin 2)) (Vec3 (Fin 3) (Fin 3) (Fin 3))) \<and>
   Union_box Box_default (Box_of (Vec3 (Fin 2) (Fin 2) (Fin 2)) (Vec3 (Fin 3) (Fin 3) (Fin 3)))
     = Box_of (Vec3 (Fin 2) (Fin 2) (Fin 2)) (Vec3 (Fin 3) (Fin 3) (Fin 3))"
proof -
  let ?a = "Box_of (Vec3 (Fin 0) (Fin 0) (Fin 0)) (Vec3 (Fin 1) (Fin 1) (Fin 1))"
  let ?b = "Box_of (Vec3 (Fin 2) (Fin 2) (Fin 2)) (Vec3 (Fin 3) (Fin 3) (Fin 3))"
  have a: "Box_no_nan ?a"
    by (simp add: Box_no_nan_def no_nan3_def Box_of_def min3_def max3_def glm_min_def glm_max_def)
  have b: "Box_no_nan ?b"
    by (simp add: Box_no_nan_def no_nan3_def Box_of_def min3_def max3_def glm_min_def glm_max_def)
  have c: "Box_no_nan Box_default"
    by (simp add: Box_no_nan_def no_nan3_def Box_default_def splat3_def)
  from Union_box_laws [OF a b c] a b c show ?thesis
    by blast
qed

text \<open>
  C4 as stated fails for a box with a NaN coordinate, which the two-point constructor
  produces from a point with a NaN coordinate: the union does not contain that operand,
  and the two orders of the union differ in the first coordinate of \<open>min\<close>.
\<close>

theorem Union_box_NaN_counterexample:
  "\<not> Contains
      (Union_box (Box_of (Vec3 NaN (Fin 0) (Fin 0)) (Vec3 (Fin 1) (Fin 1) (Fin 1)))
         (Box_of (Vec3 (Fin 0) (Fin 0) (Fin 0)) (Vec3 (Fin 1) (Fin 1) (Fin 1))))
      (Box_of (Vec3 NaN (Fin 0) (Fin 0)) (Vec3 (Fin 1) (Fin 1) (Fin 1))) \<and>
   vx (min_pt (Union_box (Box_of (Vec3 NaN (Fin 0) (Fin 0)) (Vec3 (Fin 1) (Fin 1) (Fin 1)))
         (Box_of (Vec3 (Fin 0) (Fin 0) (Fin 0)) (Vec3 (Fin 1) (Fin 1) (Fin 1))))) = NaN \<and>
   vx (min_pt (Union_box (Box_of (Vec3 (Fin 0) (Fin 0) (Fin 0)) (Vec3 (Fin 1) (Fin 1) (Fin 1)))
         (Box_of (Vec3 NaN (Fin 0) (Fin 0)) (Vec3 (Fin 1) (Fin 1) (Fin 1))))) = Fin 0"
  by (simp add: Contains_def Union_box_def Box_of_def min3_def max3_def glm_min_def glm_max_def
      all_greaterThanEqual_def fge_def)

section \<open>Overlap tests\<close>

lemma overlap_of_common_point:
  assumes "in_Box p a" and "in_Box p b"
  shows "DoesOverlap a b"
  using assms
  by (auto simp: in_Box_def le3_def DoesOverlap_def fge_def intro: fle_trans)

lemma fle_glm_max_least: "fle a c \<Longrightarrow> fle b c \<Longrightarrow> fle (glm_max a b) c"
  by (simp add: glm_max_def)

lemma common_point_of_overlap:
  assumes "Box_ordered a" and "Box_ordered b" and "DoesOverlap a b"
  shows "in_Box (max3 (min_pt a) (min_pt b)) a \<and> in_Box (max3 (min_pt a) (min_pt b)) b"
  using assms
  by (auto simp: in_Box_def le3_def DoesOverlap_def fge_def Box_ordered_def max3_def
      intro!: fle_glm_max_least glm_max_ge1 glm_max_ge2 dest: fle_not_nan)

lemma glm_min_le_glm_max1: "a \<noteq> NaN \<Longrightarrow> b \<noteq> NaN \<Longrightarrow> c \<noteq> NaN \<Longrightarrow> fle (glm_min b a) (glm_max a c)"
  by (cases a; cases b; cases c) (auto simp: glm_min_def glm_max_def)

lemma glm_min_le_glm_max2: "a \<noteq> NaN \<Longrightarrow> b \<noteq> NaN \<Longrightarrow> c \<noteq> NaN \<Longrightarrow> fle (glm_min a c) (glm_max b a)"
  by (cases a; cases b; cases c) (auto simp: glm_min_def glm_max_def)

lemma overlap_of_shared_corner:
  assumes "no_nan3 q1" and "no_nan3 q" and "no_nan3 q2"
  shows "DoesOverlap (Box_of q1 q) (Box_of q q2)"
  using assms
  by (simp add: DoesOverlap_def Box_of_def min3_def max3_def fge_def no_nan3_def glm_min_le_glm_max1 glm_min_le_glm_max2)


lemma DoesOverlap_pt_xy:
  "DoesOverlap_pt a (Vec3 u v w) =
     (fle (vx (min_pt a)) u \<and> fle u (vx (max_pt a)) \<and>
      fle (vy (min_pt a)) v \<and> fle v (vy (max_pt a)))"
  by (auto simp: DoesOverlap_pt_def fge_def)

lemma DoesOverlap_le3:
  "DoesOverlap a b = (le3 (min_pt a) (max_pt b) \<and> le3 (min_pt b) (max_pt a))"
  by (auto simp: DoesOverlap_def le3_def fge_def)

lemma in_Box_ordered:
  assumes "in_Box p b"
  shows "Box_ordered b"
  using assms by (auto simp: in_Box_def Box_ordered_def le3_def intro: fle_trans)

text \<open>
  C6 (as the code has it): for all boxes, \<open>DoesOverlap\<close> holds exactly when
  \<open>a.min \<le> b.max\<close> and \<open>b.min \<le> a.max\<close> componentwise, with non-strict comparisons; two
  boxes that share a point (a boundary point included) overlap.  For two boxes with
  \<open>min \<le> max\<close> this is the closed-interval intersection test: if they overlap they
  share the point \<open>max(a.min, b.min)\<close>.  Two boxes built by the two-point constructor
  from points without NaN coordinates that touch in a single corner overlap.  The point
  overload compares only \<open>x\<close> and \<open>y\<close>, whatever \<open>z\<close> is.  In the scenario of the
  specification the union of \<open>Box({0,0,0},{1,1,1})\<close> and \<open>Box({2,2,2},{3,3,3})\<close> is
  \<open>min = (0,0,0)\<close>, \<open>max = (3,3,3)\<close>, the two boxes do not overlap, and the union
  contains both.
\<close>

theorem DoesOverlap_closed_interval_test:
  "(in_Box p a \<and> in_Box p b \<longrightarrow> DoesOverlap a b) \<and>
   DoesOverlap a b = (le3 (min_pt a) (max_pt b) \<and> le3 (min_pt b) (max_pt a)) \<and>
   (Box_ordered a \<and> Box_ordered b \<and> DoesOverlap a b \<longrightarrow>
      in_Box (max3 (min_pt a) (min_pt b)) a \<and> in_Box (max3 (min_pt a) (min_pt b)) b) \<and>
   (no_nan3 q1 \<and> no_nan3 q \<and> no_nan3 q2 \<longrightarrow> DoesOverlap (Box_of q1 q) (Box_of q q2)) \<and>
   DoesOverlap_pt a (Vec3 u v w) = DoesOverlap_pt a (Vec3 u v w') \<and>
   DoesOverlap_pt a (Vec3 u v w) =
     (fle (vx (min_pt a)) u \<and> fle u (vx (max_pt a)) \<and>
      fle (vy (min_pt a)) v \<and> fle v (vy (max_pt a))) \<and>
   Union_box (Box_of (Vec3 (Fin 0) (Fin 0) (Fin 0)) (Vec3 (Fin 1) (Fin 1) (Fin 1)))
       (Box_of (Vec3 (Fin 2) (Fin 2) (Fin 2)) (Vec3 (Fin 3) (Fin 3) (Fin 3)))
     = \<lparr>min_pt = Vec3 (Fin 0) (Fin 0) (Fin 0), max_pt = Vec3 (Fin 3) (Fin 3) (Fin 3)\<rparr> \<and>
   \<not> DoesOverlap (Box_of (Vec3 (Fin 0) (Fin 0) (Fin 0)) (Vec3 (Fin 1) (Fin 1) (Fin 1)))
       (Box_of (Vec3 (Fin 2) (Fin 2) (Fin 2)) (Vec3 (Fin 3) (Fin 3) (Fin 3))) \<and>
   Contains
     (Union_box (Box_of (Vec3 (Fin 0) (Fin 0) (Fin 0)) (Vec3 (Fin 1) (Fin 1) (Fin 1)))
        (Box_of (Vec3 (Fin 2) (Fin 2) (Fin 2)) (Vec3 (Fin 3) (Fin 3) (Fin 3))))
     (Box_of (Vec3 (Fin 0) (Fin 0) (Fin 0)) (Vec3 (Fin 1) (Fin 1) (Fin 1))) \<and>
   Contains
     (Union_box (Box_of (Vec3 (Fin 0) (Fin 0) (Fin 0)) (Vec3 (Fin 1) (Fin 1) (Fin 1)))
        (Box_of (Vec3 (Fin 2) (Fin 2) (Fin 2)) (Vec3 (Fin 3) (Fin 3) (Fin 3))))
     (Box_of (Vec3 (Fin 2) (Fin 2) (Fin 2)) (Vec3 (Fin 3) (Fin 3) (Fin 3)))"
proof (intro conjI impI)
  show "DoesOverlap a b" if "in_Box p a \<and> in_Box p b"
    using that overlap_of_common_point by blast
  show "DoesOverlap a b = (le3 (min_pt a) (max_pt b) \<and> le3 (min_pt b) (max_pt a))"
    by (rule DoesOverlap_le3)
  show "in_Box (max3 (min_pt a) (min_pt b)) a" "in_Box (max3 (min_pt a) (min_pt b)) b"
    if "Box_ordered a \<and> Box_ordered b \<and> DoesOverlap a b"
    using that common_point_of_overlap by blast+
  show "DoesOverlap (Box_of q1 q) (Box_of q q2)" if "no_nan3 q1 \<and> no_nan3 q \<and> no_nan3 q2"
    using that overlap_of_shared_corner by blast
  show "DoesOverlap_pt a (Vec3 u v w) = DoesOverlap_pt a (Vec3 u v w')"
    by (simp only: DoesOverlap_pt_xy)
  show "DoesOverlap_pt a (Vec3 u v w) =
     (fle (vx (min_pt a)) u \<and> fle u (vx (max_pt a)) \<and>
      fle (vy (min_pt a)) v \<and> fle v (vy (max_pt a)))"
    by (rule DoesOverlap_pt_xy)
  show "Union_box (Box_of (Vec3 (Fin 0) (Fin 0) (Fin 0)) (Vec3 (Fin 1) (Fin 1) (Fin 1)))
       (Box_of (Vec3 (Fin 2) (Fin 2) (Fin 2)) (Vec3 (Fin 3) (Fin 3) (Fin 3)))
     = \<lparr>min_pt = Vec3 (Fin 0) (Fin 0) (Fin 0), max_pt = Vec3 (Fin 3) (Fin 3) (Fin 3)\<rparr>"
    by (simp add: Union_box_def Box_of_def min3_def max3_def glm_min_def glm_max_def)
  show "\<not> DoesOverlap (Box_of (Vec3 (Fin 0) (Fin 0) (Fin 0)) (Vec3 (Fin 1) (Fin 1) (Fin 1)))
       (Box_of (Vec3 (Fin 2) (Fin 2) (Fin 2)) (Vec3 (Fin 3) (Fin 3) (Fin 3)))"
    by (simp add: DoesOverlap_def Box_of_def min3_def max3_def glm_min_def glm_max_def fge_def)
  show "Contains
     (Union_box (Box_of (Vec3 (Fin 0) (Fin 0) (Fin 0)) (Vec3 (Fin 1) (Fin 1) (Fin 1)))
        (Box_of (Vec3 (Fin 2) (Fin 2) (Fin 2)) (Vec3 (Fin 3) (Fin 3) (Fin 3))))
     (Box_of (Vec3 (Fin 0) (Fin 0) (Fin 0)) (Vec3 (Fin 1) (Fin 1) (Fin 1)))"
    by (simp add: Contains_def all_greaterThanEqual_def Union_box_def Box_of_def min3_def
        max3_def glm_min_def glm_max_def fge_def)
  show "Contains
     (Union_box (Box_of (Vec3 (Fin 0) (Fin 0) (Fin 0)) (Vec3 (Fin 1) (Fin 1) (Fin 1)))
        (Box_of (Vec3 (Fin 2) (Fin 2) (Fin 2)) (Vec3 (Fin 3) (Fin 3) (Fin 3))))
     (Box_of (Vec3 (Fin 2) (Fin 2) (Fin 2)) (Vec3 (Fin 3) (Fin 3) (Fin 3)))"
    by (simp add: Contains_def all_greaterThanEqual_def Union_box_def Box_of_def min3_def
        max3_def glm_min_def glm_max_def fge_def)
qed

text \<open>
  The hypotheses at concrete boxes: \<open>Box({0,0,0},{1,1,1})\<close> and \<open>Box({1,1,1},{2,2,2})\<close>
  touch in the corner \<open>(1,1,1)\<close> only, and overlap.
\<close>

theorem DoesOverlap_closed_interval_test_witness:
  "in_Box (Vec3 (Fin 1) (Fin 1) (Fin 1))
     (Box_of (Vec3 (Fin 0) (Fin 0) (Fin 0)) (Vec3 (Fin 1) (Fin 1) (Fin 1))) \<and>
   in_Box (Vec3 (Fin 1) (Fin 1) (Fin 1))
     (Box_of (Vec3 (Fin 1) (Fin 1) (Fin 1)) (Vec3 (Fin 2) (Fin 2) (Fin 2))) \<and>
   Box_ordered (Box_of (Vec3 (Fin 0) (Fin 0) (Fin 0)) (Vec3 (Fin 1) (Fin 1) (Fin 1))) \<and>
   Box_ordered (Box_of (Vec3 (Fin 1) (Fin 1) (Fin 1)) (Vec3 (Fin 2) (Fin 2) (Fin 2))) \<and>
   no_nan3 (Vec3 (Fin 0) (Fin 0) (Fin 0)) \<and> no_nan3 (Vec3 (Fin 1) (Fin 1) (Fin 1)) \<and>
   no_nan3 (Vec3 (Fin 2) (Fin 2) (Fin 2)) \<and>
   DoesOverlap (Box_of (Vec3 (Fin 0) (Fin 0) (Fin 0)) (Vec3 (Fin 1) (Fin 1) (Fin 1)))
     (Box_of (Vec3 (Fin 1) (Fin 1) (Fin 1)) (Vec3 (Fin 2) (Fin 2) (Fin 2))) \<and>
   in_Box (max3 (min_pt (Box_of (Vec3 (Fin 0) (Fin 0) (Fin 0)) (Vec3 (Fin 1) (Fin 1) (Fin 1))))
       (min_pt (Box_of (Vec3 (Fin 1) (Fin 1) (Fin 1)) (Vec3 (Fin 2) (Fin 2) (Fin 2)))))
     (Box_of (Vec3 (Fin 0) (Fin 0) (Fin 0)) (Vec3 (Fin 1) (Fin 1) (Fin 1)))"
proof -
  let ?a = "Box_of (Vec3 (Fin 0) (Fin 0) (Fin 0)) (Vec3 (Fin 1) (Fin 1) (Fin 1))"
  let ?b = "Box_of (Vec3 (Fin 1) (Fin 1) (Fin 1)) (Vec3 (Fin 2) (Fin 2) (Fin 2))"
  have ia: "in_Box (Vec3 (Fin 1) (Fin 1) (Fin 1)) ?a"
    by (simp add: in_Box_def le3_def Box_of_def min3_def max3_def glm_min_def glm_max_def)
  have ib: "in_Box (Vec3 (Fin 1) (Fin 1) (Fin 1)) ?b"
    by (simp add: in_Box_def le3_def Box_of_def min3_def max3_def glm_min_def glm_max_def)
  have oa: "Box_ordered ?a"
    by (simp add: Box_ordered_def le3_def Box_of_def min3_def max3_def glm_min_def glm_max_def)
  have ob: "Box_ordered ?b"
    by (simp add: Box_ordered_def le3_def Box_of_def min3_def max3_def glm_min_def glm_max_def)
  have nn: "no_nan3 (Vec3 (Fin 0) (Fin 0) (Fin 0))" "no_nan3 (Vec3 (Fin 1) (Fin 1) (Fin 1))"
    "no_nan3 (Vec3 (Fin 2) (Fin 2) (Fin 2))"
    by (simp_all add: no_nan3_def)
  from DoesOverlap_closed_interval_test
    [of "Vec3 (Fin 1) (Fin 1) (Fin 1)" ?a ?b "Vec3 (Fin 0) (Fin 0) (Fin 0)"
      "Vec3 (Fin 1) (Fin 1) (Fin 1)" "Vec3 (Fin 2) (Fin 2) (Fin 2)"]
    ia ib oa ob nn
  show ?thesis by blast
qed

text \<open>
  C6 as stated fails for boxes with \<open>min > max\<close>, which contain no point and still pass
  the test: \<open>Box({0,0,0},{1,1,1}) * (-1,-1,-1)\<close> has \<open>min = (0,0,0)\<close> and
  \<open>max = (-1,-1,-1)\<close> and overlaps \<open>Box({-1,-1,-1},{0,0,0})\<close>, and the default-constructed
  box overlaps the box from minus to plus infinity.
\<close>

theorem DoesOverlap_inverted_counterexample:
  "DoesOverlap
     (Box_times (Box_of (Vec3 (Fin 0) (Fin 0) (Fin 0)) (Vec3 (Fin 1) (Fin 1) (Fin 1)))
        (Vec3 (Fin (- 1)) (Fin (- 1)) (Fin (- 1))))
     (Box_of (Vec3 (Fin (- 1)) (Fin (- 1)) (Fin (- 1))) (Vec3 (Fin 0) (Fin 0) (Fin 0))) \<and>
   \<not> (\<exists>p. in_Box p
     (Box_times (Box_of (Vec3 (Fin 0) (Fin 0) (Fin 0)) (Vec3 (Fin 1) (Fin 1) (Fin 1)))
        (Vec3 (Fin (- 1)) (Fin (- 1)) (Fin (- 1))))) \<and>
   DoesOverlap Box_default (Box_of (Vec3 NInf NInf NInf) (Vec3 PInf PInf PInf)) \<and>
   \<not> (\<exists>p. in_Box p Box_default)"
proof -
  let ?inv = "Box_times (Box_of (Vec3 (Fin 0) (Fin 0) (Fin 0)) (Vec3 (Fin 1) (Fin 1) (Fin 1)))
        (Vec3 (Fin (- 1)) (Fin (- 1)) (Fin (- 1)))"
  have m: "rnd32 (- 1) = Fin (- 1)"
    using rnd32_of_int [of "- 1"] by simp
  have inv: "?inv = \<lparr>min_pt = Vec3 (Fin 0) (Fin 0) (Fin 0),
      max_pt = Vec3 (Fin (- 1)) (Fin (- 1)) (Fin (- 1))\<rparr>"
    by (simp add: Box_times_def mul3_def Box_of_def min3_def max3_def glm_min_def glm_max_def m)
  have o1: "DoesOverlap ?inv
     (Box_of (Vec3 (Fin (- 1)) (Fin (- 1)) (Fin (- 1))) (Vec3 (Fin 0) (Fin 0) (Fin 0)))"
    unfolding inv
    by (simp add: DoesOverlap_def fge_def Box_of_def min3_def max3_def glm_min_def glm_max_def)
  have "\<not> Box_ordered ?inv"
    unfolding inv by (simp add: Box_ordered_def le3_def)
  then have e1: "\<not> (\<exists>p. in_Box p ?inv)"
    using in_Box_ordered by blast
  have o2: "DoesOverlap Box_default (Box_of (Vec3 NInf NInf NInf) (Vec3 PInf PInf PInf))"
    by (simp add: DoesOverlap_def fge_def Box_default_def splat3_def Box_of_def min3_def max3_def
        glm_min_def glm_max_def)
  have "\<not> Box_ordered Box_default"
    by (simp add: Box_ordered_def le3_def Box_default_def splat3_def)
  then have e2: "\<not> (\<exists>p. in_Box p Box_default)"
    using in_Box_ordered by blast
  from o1 e1 o2 e2 show ?thesis
    by (intro conjI)
qed

section \<open>Orientation test: the three-way result and antisymmetry\<close>

lemma CCW_area_unit: "CCW_area (Vec2 (Fin 0) (Fin 0)) (Vec2 (Fin 1) (Fin 0)) (Vec2 (Fin 0) (Fin 1)) = Fin 1"
  by (simp add: CCW_area_def sub2_def fsub_def)

lemma CCW_base2_unit: "CCW_base2 (Vec2 (Fin 0) (Fin 0)) (Vec2 (Fin 1) (Fin 0)) (Vec2 (Fin 0) (Fin 1)) = Fin 1"
  by (simp add: CCW_base2_def sub2_def fsub_def dot2_def glm_max_def)

lemma CCW_threshold_unit:
  "fmul (fmul (CCW_base2 (Vec2 (Fin 0) (Fin 0)) (Vec2 (Fin 1) (Fin 0)) (Vec2 (Fin 0) (Fin 1)))
     kTolerance) kTolerance \<noteq> NaN"
proof -
  obtain t where t: "kTolerance = Fin t" "0 \<le> t" "t \<le> 1 / 65536"
    using kTolerance_bounds by blast
  obtain s where "fmul (fmul (Fin 1) (Fin t)) (Fin t) = Fin s"
    using small_threshold [of 1 t] t by auto
  then show ?thesis
    by (simp add: CCW_base2_unit t(1))
qed

lemma CCW_area_overflow:
  assumes "rnd32 a = Fin a" and "rnd32 b = Fin b" and "2 ^ 128 \<le> a * b"
  shows "CCW_area (Vec2 (Fin 0) (Fin 0)) (Vec2 (Fin a) (Fin a)) (Vec2 (Fin b) (Fin b)) = NaN"
  using assms by (simp add: CCW_area_def sub2_def fsub_def rnd32_overflow)

lemma CCW_of_NaN_area:
  assumes "CCW_area p0 p1 p2 = NaN"
  shows "CCW p0 p1 p2 tol = - 1"
  using assms by (simp add: CCW_unfold fgt_def)

lemma CCW_collinear_overflow:
  assumes "rnd32 a = Fin a" and "rnd32 b = Fin b" and "2 ^ 128 \<le> a * a" and "2 ^ 128 \<le> b * b"
  shows "CCW_area (Vec2 (Fin 0) (Fin 0)) (Vec2 (Fin a) (Fin 0)) (Vec2 (Fin b) (Fin 0)) = Fin 0"
    and "CCW (Vec2 (Fin 0) (Fin 0)) (Vec2 (Fin a) (Fin 0)) (Vec2 (Fin b) (Fin 0)) (Fin 0) = - 1"
  using assms
  by (simp_all add: CCW_def CCW_area_def sub2_def fsub_def dot2_def glm_max_def fgt_def
      rnd32_overflow)

text \<open>
  C5 (as the code has it): whenever neither the computed area nor the computed threshold
  \<open>base2 * tol * tol\<close> is NaN, swapping the last two points negates the result.
\<close>

theorem CCW_antisymmetry:
  assumes "CCW_area p0 p1 p2 \<noteq> NaN" and "fmul (fmul (CCW_base2 p0 p1 p2) tol) tol \<noteq> NaN"
  shows "CCW p0 p1 p2 tol = - CCW p0 p2 p1 tol"
  using assms by (rule CCW_antisym)

theorem CCW_antisymmetry_witness:
  "CCW_area (Vec2 (Fin 0) (Fin 0)) (Vec2 (Fin 1) (Fin 0)) (Vec2 (Fin 0) (Fin 1)) \<noteq> NaN \<and>
   fmul (fmul (CCW_base2 (Vec2 (Fin 0) (Fin 0)) (Vec2 (Fin 1) (Fin 0)) (Vec2 (Fin 0) (Fin 1)))
     kTolerance) kTolerance \<noteq> NaN \<and>
   CCW (Vec2 (Fin 0) (Fin 0)) (Vec2 (Fin 1) (Fin 0)) (Vec2 (Fin 0) (Fin 1)) kTolerance = 1 \<and>
   CCW (Vec2 (Fin 0) (Fin 0)) (Vec2 (Fin 0) (Fin 1)) (Vec2 (Fin 1) (Fin 0)) kTolerance = - 1"
proof -
  have a: "CCW_area (Vec2 (Fin 0) (Fin 0)) (Vec2 (Fin 1) (Fin 0)) (Vec2 (Fin 0) (Fin 1)) \<noteq> NaN"
    by (simp add: CCW_area_unit)
  from CCW_antisymmetry [OF a CCW_threshold_unit] a CCW_threshold_unit CCW_ccw_example
  show ?thesis
    by simp
qed

text \<open>
  C5 as stated fails on finite points with the tolerance \<open>1e-5\<close>: for \<open>p0 = (0,0)\<close>,
  \<open>p1 = (2^100, 2^100)\<close>, \<open>p2 = (2^101, 2^101)\<close> both products of the area overflow
  to infinity, their difference is NaN, and \<open>CCW\<close> returns \<open>-1\<close> for either order.
\<close>

theorem CCW_antisymmetry_counterexample:
  "fgt kTolerance (Fin 0) \<and>
   rnd32 (2 ^ 100) = Fin (2 ^ 100) \<and> rnd32 (2 ^ 101) = Fin (2 ^ 101) \<and>
   CCW (Vec2 (Fin 0) (Fin 0)) (Vec2 (Fin (2 ^ 100)) (Fin (2 ^ 100)))
     (Vec2 (Fin (2 ^ 101)) (Fin (2 ^ 101))) kTolerance = - 1 \<and>
   - CCW (Vec2 (Fin 0) (Fin 0)) (Vec2 (Fin (2 ^ 101)) (Fin (2 ^ 101)))
     (Vec2 (Fin (2 ^ 100)) (Fin (2 ^ 100))) kTolerance = 1"
proof -
  have a: "rnd32 (2 ^ 100) = Fin (2 ^ 100)" and b: "rnd32 (2 ^ 101) = Fin (2 ^ 101)"
    by (simp_all only: rnd32_pow2)
  have c: "(2::real) ^ 128 \<le> 2 ^ 100 * 2 ^ 101" "(2::real) ^ 128 \<le> 2 ^ 101 * 2 ^ 100"
    by simp_all
  show ?thesis
    using CCW_of_NaN_area [OF CCW_area_overflow [OF a b c(1)]]
      CCW_of_NaN_area [OF CCW_area_overflow [OF b a c(2)]] kTolerance_pos a b
    by (simp only: minus_minus simp_thms)
qed

text \<open>
  C3 (as the code has it): \<open>CCW\<close> returns 0 when \<open>area * area \<le> base2 * tol * tol\<close> in
  float arithmetic (equality included), and otherwise 1 if \<open>area > 0\<close> and \<open>-1\<close> if
  not; this is the sign of the area whenever neither the area nor the threshold is NaN.
  With the tolerance \<open>1e-5\<close>, \<open>CCW((0,0),(1,0),(0,1))\<close> is 1 and \<open>CCW((0,0),(1,0),(2,0))\<close>
  is 0.
\<close>

theorem CCW_three_way:
  "CCW p0 p1 p2 tol =
     (if fle (fmul (CCW_area p0 p1 p2) (CCW_area p0 p1 p2)) (fmul (fmul (CCW_base2 p0 p1 p2) tol) tol)
      then 0 else if fgt (CCW_area p0 p1 p2) (Fin 0) then 1 else - 1) \<and>
   (CCW_area p0 p1 p2 \<noteq> NaN \<and> fmul (fmul (CCW_base2 p0 p1 p2) tol) tol \<noteq> NaN \<longrightarrow>
    CCW p0 p1 p2 tol =
     (if fle (fmul (CCW_area p0 p1 p2) (CCW_area p0 p1 p2)) (fmul (fmul (CCW_base2 p0 p1 p2) tol) tol)
      then 0 else Signum (CCW_area p0 p1 p2))) \<and>
   (fmul (CCW_area p0 p1 p2) (CCW_area p0 p1 p2) = fmul (fmul (CCW_base2 p0 p1 p2) tol) tol \<and>
    fmul (fmul (CCW_base2 p0 p1 p2) tol) tol \<noteq> NaN \<longrightarrow> CCW p0 p1 p2 tol = 0) \<and>
   CCW (Vec2 (Fin 0) (Fin 0)) (Vec2 (Fin 1) (Fin 0)) (Vec2 (Fin 0) (Fin 1)) kTolerance = 1 \<and>
   CCW (Vec2 (Fin 0) (Fin 0)) (Vec2 (Fin 1) (Fin 0)) (Vec2 (Fin 2) (Fin 0)) kTolerance = 0"
proof (intro conjI impI)
  show "CCW p0 p1 p2 tol =
     (if fle (fmul (CCW_area p0 p1 p2) (CCW_area p0 p1 p2)) (fmul (fmul (CCW_base2 p0 p1 p2) tol) tol)
      then 0 else if fgt (CCW_area p0 p1 p2) (Fin 0) then 1 else - 1)"
    by (rule CCW_unfold)
  show "CCW p0 p1 p2 tol =
     (if fle (fmul (CCW_area p0 p1 p2) (CCW_area p0 p1 p2)) (fmul (fmul (CCW_base2 p0 p1 p2) tol) tol)
      then 0 else Signum (CCW_area p0 p1 p2))"
    if "CCW_area p0 p1 p2 \<noteq> NaN \<and> fmul (fmul (CCW_base2 p0 p1 p2) tol) tol \<noteq> NaN"
    using that by (intro CCW_eq_Signum) simp_all
  show "CCW p0 p1 p2 tol = 0"
    if "fmul (CCW_area p0 p1 p2) (CCW_area p0 p1 p2) = fmul (fmul (CCW_base2 p0 p1 p2) tol) tol \<and>
      fmul (fmul (CCW_base2 p0 p1 p2) tol) tol \<noteq> NaN"
    using that by (simp add: CCW_unfold fle_refl)
  show "CCW (Vec2 (Fin 0) (Fin 0)) (Vec2 (Fin 1) (Fin 0)) (Vec2 (Fin 0) (Fin 1)) kTolerance = 1"
    by (rule CCW_ccw_example)
  show "CCW (Vec2 (Fin 0) (Fin 0)) (Vec2 (Fin 1) (Fin 0)) (Vec2 (Fin 2) (Fin 0)) kTolerance = 0"
    by (rule CCW_collinear_example)
qed

text \<open>
  The hypotheses at \<open>p0 = (0,0)\<close>, \<open>p1 = (1,0)\<close>, \<open>p2 = (0,1)\<close> and \<open>tol = 1\<close>: area and
  threshold are both 1, the boundary case, and the result is 0.
\<close>

theorem CCW_three_way_witness:
  "CCW_area (Vec2 (Fin 0) (Fin 0)) (Vec2 (Fin 1) (Fin 0)) (Vec2 (Fin 0) (Fin 1)) \<noteq> NaN \<and>
   fmul (fmul (CCW_base2 (Vec2 (Fin 0) (Fin 0)) (Vec2 (Fin 1) (Fin 0)) (Vec2 (Fin 0) (Fin 1)))
     (Fin 1)) (Fin 1) \<noteq> NaN \<and>
   fmul (CCW_area (Vec2 (Fin 0) (Fin 0)) (Vec2 (Fin 1) (Fin 0)) (Vec2 (Fin 0) (Fin 1)))
        (CCW_area (Vec2 (Fin 0) (Fin 0)) (Vec2 (Fin 1) (Fin 0)) (Vec2 (Fin 0) (Fin 1)))
     = fmul (fmul (CCW_base2 (Vec2 (Fin 0) (Fin 0)) (Vec2 (Fin 1) (Fin 0)) (Vec2 (Fin 0) (Fin 1)))
         (Fin 1)) (Fin 1) \<and>
   CCW (Vec2 (Fin 0) (Fin 0)) (Vec2 (Fin 1) (Fin 0)) (Vec2 (Fin 0) (Fin 1)) (Fin 1) = 0"
  using CCW_three_way [of "Vec2 (Fin 0) (Fin 0)" "Vec2 (Fin 1) (Fin 0)" "Vec2 (Fin 0) (Fin 1)" "Fin 1"]
  by (simp add: CCW_area_unit CCW_base2_unit)

text \<open>
  C3 as stated fails on collinear finite points with tolerance 0: for \<open>p0 = (0,0)\<close>,
  \<open>p1 = (2^100, 0)\<close>, \<open>p2 = (2^101, 0)\<close> the area is 0, whose sign is 0, but \<open>base2\<close>
  overflows to infinity, the threshold \<open>infinity * 0\<close> is NaN, the comparison is false
  and \<open>CCW\<close> returns \<open>-1\<close>.
\<close>

theorem CCW_sign_counterexample:
  "rnd32 (2 ^ 100) = Fin (2 ^ 100) \<and> rnd32 (2 ^ 101) = Fin (2 ^ 101) \<and>
   CCW_area (Vec2 (Fin 0) (Fin 0)) (Vec2 (Fin (2 ^ 100)) (Fin 0)) (Vec2 (Fin (2 ^ 101)) (Fin 0))
     = Fin 0 \<and>
   Signum (Fin 0) = 0 \<and>
   CCW (Vec2 (Fin 0) (Fin 0)) (Vec2 (Fin (2 ^ 100)) (Fin 0)) (Vec2 (Fin (2 ^ 101)) (Fin 0)) (Fin 0)
     = - 1"
proof -
  have a: "rnd32 (2 ^ 100) = Fin (2 ^ 100)" and b: "rnd32 (2 ^ 101) = Fin (2 ^ 101)"
    by (simp_all only: rnd32_pow2)
  have c: "(2::real) ^ 128 \<le> 2 ^ 100 * 2 ^ 100" "(2::real) ^ 128 \<le> 2 ^ 101 * 2 ^ 101"
    by simp_all
  have "Signum (Fin 0) = 0"
    by (simp add: Signum_def fgt_def)
  with CCW_collinear_overflow [OF a b c] a b show ?thesis
    by (simp only: simp_thms)
qed

section \<open>The ordering invariant of boxes\<close>

lemma fle_NInf_iff: "fle NInf a \<longleftrightarrow> a \<noteq> NaN"
  by (cases a) simp_all

lemma fle_PInf_iff: "fle a PInf \<longleftrightarrow> a \<noteq> NaN"
  by (cases a) simp_all

lemma fadd_mono:
  "fle a b \<Longrightarrow> fadd a s \<noteq> NaN \<Longrightarrow> fadd b s \<noteq> NaN \<Longrightarrow> fle (fadd a s) (fadd b s)"
  by (cases a; cases b; cases s) (simp_all add: rnd32_mono fle_NInf_iff fle_PInf_iff)

lemma fmul_mono:
  "fle a b \<Longrightarrow> fle (Fin 0) s \<Longrightarrow> fmul a s \<noteq> NaN \<Longrightarrow> fmul b s \<noteq> NaN \<Longrightarrow>
   fle (fmul a s) (fmul b s)"
  by (cases a; cases b; cases s)
     (auto simp: rnd32_mono mult_right_mono fle_NInf_iff fle_PInf_iff split: if_splits)

lemma glm_min_le_glm_max: "a \<noteq> NaN \<Longrightarrow> fle (glm_min a b) (glm_max a b)"
  by (cases a; cases b) (auto simp: glm_min_def glm_max_def)

lemma glm_min_le_glm_max_grow: "fle lo hi \<Longrightarrow> fle (glm_min lo p) (glm_max hi q)"
  by (cases lo; cases hi; cases p; cases q) (auto simp: glm_min_def glm_max_def)

lemma Box_of_ordered:
  assumes "no_nan3 p1"
  shows "Box_ordered (Box_of p1 p2)"
  using assms
  by (simp add: Box_ordered_def le3_def Box_of_def min3_def max3_def no_nan3_def
      glm_min_le_glm_max)

lemma Union_pt_ordered:
  assumes "Box_ordered b"
  shows "Box_ordered (Union_pt b p)"
  using assms
  by (simp add: Box_ordered_def le3_def Union_pt_def min3_def max3_def glm_min_le_glm_max_grow)

lemma Union_box_ordered:
  assumes "Box_ordered a"
  shows "Box_ordered (Union_box a b)"
  using assms
  by (simp add: Box_ordered_def le3_def Union_box_def min3_def max3_def glm_min_le_glm_max_grow)

lemma Transform_ordered:
  assumes "no_nan3 (transform_point t (min_pt b))"
  shows "Box_ordered (Transform b t)"
  using assms
  by (simp add: Box_ordered_def le3_def Transform_def Let_def min3_def max3_def no_nan3_def
      glm_min_le_glm_max)

lemma Box_plus_ordered:
  assumes "Box_ordered b" and "no_nan3 (add3 (min_pt b) shift)" and "no_nan3 (add3 (max_pt b) shift)"
  shows "Box_ordered (Box_plus b shift)"
  using assms
  by (simp add: Box_ordered_def le3_def Box_plus_def add3_def no_nan3_def fadd_mono)

lemma Box_plus_assign_eq: "Box_plus_assign b shift = Box_plus b shift"
  by (simp add: Box_plus_assign_def Box_plus_def)

lemma Box_times_ordered:
  assumes "Box_ordered b" and "nonneg3 scale"
    and "no_nan3 (mul3 (min_pt b) scale)" and "no_nan3 (mul3 (max_pt b) scale)"
  shows "Box_ordered (Box_times b scale)"
  using assms
  by (simp add: Box_ordered_def le3_def Box_times_def mul3_def no_nan3_def nonneg3_def
      splat3_def fmul_mono)

lemma Box_times_assign_eq: "Box_times_assign b scale = Box_times b scale"
  by (simp add: Box_times_assign_def Box_times_def)

lemma isfinite_iff: "isfinite a \<longleftrightarrow> (\<exists>u. a = Fin u)"
  by (cases a) (simp_all add: isfinite_def)

lemma fadd_finite_not_NaN: "isfinite a \<Longrightarrow> isfinite b \<Longrightarrow> fadd a b \<noteq> NaN"
  by (auto simp: isfinite_iff)

lemma fmul_finite_not_NaN: "isfinite a \<Longrightarrow> isfinite b \<Longrightarrow> fmul a b \<noteq> NaN"
  by (auto simp: isfinite_iff)

lemma Box_plus_ordered_finite:
  assumes "Box_ordered b" and "isFinite b" and "all_isfinite shift"
  shows "Box_ordered (Box_plus b shift)"
  using assms
  by (intro Box_plus_ordered)
     (simp_all add: isFinite_def all_isfinite_def no_nan3_def add3_def fadd_finite_not_NaN)

lemma Box_times_ordered_finite:
  assumes "Box_ordered b" and "isFinite b" and "all_isfinite scale" and "nonneg3 scale"
  shows "Box_ordered (Box_times b scale)"
  using assms
  by (intro Box_times_ordered)
     (simp_all add: isFinite_def all_isfinite_def no_nan3_def mul3_def fmul_finite_not_NaN)

text \<open>
  C2 (as the code has it): the two-point constructor yields \<open>min \<le> max\<close> when the first
  point has no NaN coordinate (so for finite points); \<open>Union\<close> with a point or a box
  keeps \<open>min \<le> max\<close>; \<open>Transform\<close> yields \<open>min \<le> max\<close> when the transformed \<open>min\<close>
  corner has no NaN coordinate; \<open>operator+\<close> and \<open>operator+=\<close> keep \<open>min \<le> max\<close> when
  the shifted corners have no NaN coordinate; \<open>operator*\<close> and \<open>operator*=\<close> keep it when
  every component of the scale is at least 0 and the scaled corners have no NaN
  coordinate.  The side conditions on NaN hold whenever the box and the shift or scale
  are finite.  The default-constructed box does not satisfy \<open>min \<le> max\<close>.
\<close>

theorem Box_ordered_preserved:
  "(no_nan3 p1 \<longrightarrow> Box_ordered (Box_of p1 p2)) \<and>
   (Box_ordered b \<longrightarrow> Box_ordered (Union_pt b p) \<and> Box_ordered (Union_box b c)) \<and>
   (no_nan3 (transform_point t (min_pt b)) \<longrightarrow> Box_ordered (Transform b t)) \<and>
   (Box_ordered b \<and> no_nan3 (add3 (min_pt b) shift) \<and> no_nan3 (add3 (max_pt b) shift) \<longrightarrow>
      Box_ordered (Box_plus b shift) \<and> Box_ordered (Box_plus_assign b shift)) \<and>
   (Box_ordered b \<and> nonneg3 scale \<and>
    no_nan3 (mul3 (min_pt b) scale) \<and> no_nan3 (mul3 (max_pt b) scale) \<longrightarrow>
      Box_ordered (Box_times b scale) \<and> Box_ordered (Box_times_assign b scale)) \<and>
   (Box_ordered b \<and> isFinite b \<and> all_isfinite shift \<longrightarrow> Box_ordered (Box_plus b shift)) \<and>
   (Box_ordered b \<and> isFinite b \<and> all_isfinite scale \<and> nonneg3 scale \<longrightarrow>
      Box_ordered (Box_times b scale)) \<and>
   \<not> Box_ordered Box_default"
proof (intro conjI impI)
  show "Box_ordered (Box_of p1 p2)" if "no_nan3 p1"
    using that by (rule Box_of_ordered)
  show "Box_ordered (Union_pt b p)" if "Box_ordered b"
    using that by (rule Union_pt_ordered)
  show "Box_ordered (Union_box b c)" if "Box_ordered b"
    using that by (rule Union_box_ordered)
  show "Box_ordered (Transform b t)" if "no_nan3 (transform_point t (min_pt b))"
    using that by (rule Transform_ordered)
  show "Box_ordered (Box_plus b shift)" "Box_ordered (Box_plus_assign b shift)"
    if "Box_ordered b \<and> no_nan3 (add3 (min_pt b) shift) \<and> no_nan3 (add3 (max_pt b) shift)"
    using that by (simp_all add: Box_plus_assign_eq Box_plus_ordered)
  show "Box_ordered (Box_times b scale)" "Box_ordered (Box_times_assign b scale)"
    if "Box_ordered b \<and> nonneg3 scale \<and>
      no_nan3 (mul3 (min_pt b) scale) \<and> no_nan3 (mul3 (max_pt b) scale)"
    using that by (simp_all add: Box_times_assign_eq Box_times_ordered)
  show "Box_ordered (Box_plus b shift)"
    if "Box_ordered b \<and> isFinite b \<and> all_isfinite shift"
    using that by (simp add: Box_plus_ordered_finite)
  show "Box_ordered (Box_times b scale)"
    if "Box_ordered b \<and> isFinite b \<and> all_isfinite scale \<and> nonneg3 scale"
    using that by (simp add: Box_times_ordered_finite)
  show "\<not> Box_ordered Box_default"
    by (simp add: Box_ordered_def Box_default_def le3_def splat3_def)
qed


text \<open>
  The hypotheses at \<open>Box({0,0,0},{1,1,1})\<close>, the quarter turn about the \<open>z\<close> axis followed
  by a translation by \<open>(5,0,0)\<close>, the shift \<open>(1,1,1)\<close> and the scale \<open>(2,2,2)\<close>.
\<close>

theorem Box_ordered_preserved_witness:
  "no_nan3 (Vec3 (Fin 0) (Fin 0) (Fin 0)) \<and>
   Box_ordered (Box_of (Vec3 (Fin 0) (Fin 0) (Fin 0)) (Vec3 (Fin 1) (Fin 1) (Fin 1))) \<and>
   no_nan3 (transform_point
      (Mat4x3 (Vec3 (Fin 0) (Fin 1) (Fin 0)) (Vec3 (Fin (- 1)) (Fin 0) (Fin 0))
         (Vec3 (Fin 0) (Fin 0) (Fin 1)) (Vec3 (Fin 5) (Fin 0) (Fin 0)))
      (min_pt (Box_of (Vec3 (Fin 0) (Fin 0) (Fin 0)) (Vec3 (Fin 1) (Fin 1) (Fin 1))))) \<and>
   no_nan3 (add3 (min_pt (Box_of (Vec3 (Fin 0) (Fin 0) (Fin 0)) (Vec3 (Fin 1) (Fin 1) (Fin 1))))
      (Vec3 (Fin 1) (Fin 1) (Fin 1))) \<and>
   no_nan3 (add3 (max_pt (Box_of (Vec3 (Fin 0) (Fin 0) (Fin 0)) (Vec3 (Fin 1) (Fin 1) (Fin 1))))
      (Vec3 (Fin 1) (Fin 1) (Fin 1))) \<and>
   nonneg3 (Vec3 (Fin 2) (Fin 2) (Fin 2)) \<and>
   isFinite (Box_of (Vec3 (Fin 0) (Fin 0) (Fin 0)) (Vec3 (Fin 1) (Fin 1) (Fin 1))) \<and>
   all_isfinite (Vec3 (Fin 1) (Fin 1) (Fin 1)) \<and> all_isfinite (Vec3 (Fin 2) (Fin 2) (Fin 2)) \<and>
   no_nan3 (mul3 (min_pt (Box_of (Vec3 (Fin 0) (Fin 0) (Fin 0)) (Vec3 (Fin 1) (Fin 1) (Fin 1))))
      (Vec3 (Fin 2) (Fin 2) (Fin 2))) \<and>
   no_nan3 (mul3 (max_pt (Box_of (Vec3 (Fin 0) (Fin 0) (Fin 0)) (Vec3 (Fin 1) (Fin 1) (Fin 1))))
      (Vec3 (Fin 2) (Fin 2) (Fin 2))) \<and>
   Box_ordered (Union_pt (Box_of (Vec3 (Fin 0) (Fin 0) (Fin 0)) (Vec3 (Fin 1) (Fin 1) (Fin 1)))
      (Vec3 (Fin 2) (Fin 2) (Fin 2))) \<and>
   Box_ordered (Transform (Box_of (Vec3 (Fin 0) (Fin 0) (Fin 0)) (Vec3 (Fin 1) (Fin 1) (Fin 1)))
      (Mat4x3 (Vec3 (Fin 0) (Fin 1) (Fin 0)) (Vec3 (Fin (- 1)) (Fin 0) (Fin 0))
         (Vec3 (Fin 0) (Fin 0) (Fin 1)) (Vec3 (Fin 5) (Fin 0) (Fin 0)))) \<and>
   Box_ordered (Box_plus (Box_of (Vec3 (Fin 0) (Fin 0) (Fin 0)) (Vec3 (Fin 1) (Fin 1) (Fin 1)))
      (Vec3 (Fin 1) (Fin 1) (Fin 1))) \<and>
   Box_ordered (Box_times_assign
      (Box_of (Vec3 (Fin 0) (Fin 0) (Fin 0)) (Vec3 (Fin 1) (Fin 1) (Fin 1)))
      (Vec3 (Fin 2) (Fin 2) (Fin 2)))"
proof -
  let ?b = "Box_of (Vec3 (Fin 0) (Fin 0) (Fin 0)) (Vec3 (Fin 1) (Fin 1) (Fin 1))"
  let ?t = "Mat4x3 (Vec3 (Fin 0) (Fin 1) (Fin 0)) (Vec3 (Fin (- 1)) (Fin 0) (Fin 0))
         (Vec3 (Fin 0) (Fin 0) (Fin 1)) (Vec3 (Fin 5) (Fin 0) (Fin 0))"
  have mn: "min_pt ?b = Vec3 (Fin 0) (Fin 0) (Fin 0)" and mx: "max_pt ?b = Vec3 (Fin 1) (Fin 1) (Fin 1)"
    by (simp_all add: Box_of_def min3_def max3_def glm_min_def glm_max_def)
  have h1: "no_nan3 (Vec3 (Fin 0) (Fin 0) (Fin 0))"
    by (simp add: no_nan3_def)
  have h2: "Box_ordered ?b"
    by (simp add: Box_ordered_def le3_def mn mx)
  have h3: "no_nan3 (transform_point ?t (min_pt ?b))"
    by (simp add: mn transform_point_def mat_row_def no_nan3_def rnd32_numeral)
  have h4: "no_nan3 (add3 (min_pt ?b) (Vec3 (Fin 1) (Fin 1) (Fin 1)))"
    "no_nan3 (add3 (max_pt ?b) (Vec3 (Fin 1) (Fin 1) (Fin 1)))"
    by (simp_all add: mn mx add3_def no_nan3_def)
  have h5: "nonneg3 (Vec3 (Fin 2) (Fin 2) (Fin 2))"
    by (simp add: nonneg3_def le3_def splat3_def)
  have h6: "no_nan3 (mul3 (min_pt ?b) (Vec3 (Fin 2) (Fin 2) (Fin 2)))"
    "no_nan3 (mul3 (max_pt ?b) (Vec3 (Fin 2) (Fin 2) (Fin 2)))"
    by (simp_all add: mn mx mul3_def no_nan3_def)
  have h7: "isFinite ?b" "all_isfinite (Vec3 (Fin 1) (Fin 1) (Fin 1))"
    "all_isfinite (Vec3 (Fin 2) (Fin 2) (Fin 2))"
    by (simp_all add: isFinite_def all_isfinite_def isfinite_def mn mx)
  from Box_ordered_preserved
    [of "Vec3 (Fin 0) (Fin 0) (Fin 0)" "Vec3 (Fin 1) (Fin 1) (Fin 1)" ?b
      "Vec3 (Fin 2) (Fin 2) (Fin 2)" ?b ?t "Vec3 (Fin 1) (Fin 1) (Fin 1)"
      "Vec3 (Fin 2) (Fin 2) (Fin 2)"]
    h1 h2 h3 h4 h5 h6 h7
  show ?thesis
    by blast
qed

text \<open>
  C2 as stated fails for \<open>operator*\<close> with a negative scale: \<open>Box({0,0,0},{1,1,1})\<close> scaled
  by \<open>(-1,-1,-1)\<close> has \<open>min = (0,0,0)\<close> and \<open>max = (-1,-1,-1)\<close>.
\<close>

theorem Box_times_negative_counterexample:
  "Box_ordered (Box_of (Vec3 (Fin 0) (Fin 0) (Fin 0)) (Vec3 (Fin 1) (Fin 1) (Fin 1))) \<and>
   Box_times (Box_of (Vec3 (Fin 0) (Fin 0) (Fin 0)) (Vec3 (Fin 1) (Fin 1) (Fin 1)))
       (Vec3 (Fin (- 1)) (Fin (- 1)) (Fin (- 1)))
     = \<lparr>min_pt = Vec3 (Fin 0) (Fin 0) (Fin 0), max_pt = Vec3 (Fin (- 1)) (Fin (- 1)) (Fin (- 1))\<rparr> \<and>
   \<not> Box_ordered (Box_times (Box_of (Vec3 (Fin 0) (Fin 0) (Fin 0)) (Vec3 (Fin 1) (Fin 1) (Fin 1)))
       (Vec3 (Fin (- 1)) (Fin (- 1)) (Fin (- 1))))"
proof -
  have m: "rnd32 (- 1) = Fin (- 1)"
    using rnd32_of_int [of "- 1"] by simp
  show ?thesis
    by (simp add: Box_ordered_def le3_def Box_times_def mul3_def Box_of_def min3_def max3_def
        glm_min_def glm_max_def m)
qed

section \<open>Export: validation and the empty mesh\<close>

lemma ExportMesh_normal_mismatch:
  assumes "triVerts mesh \<noteq> []" and "\<not> faceted options"
    and "length (vertNormal mesh) \<noteq> length (vertPos mesh)"
  shows "ExportMesh exporter filename mesh options w =
     (Inl (userErr ''vertNormal must be the same length as vertPos when faceted is false.''), w)"
  using assms by (simp add: ExportMesh_def Let_def)

lemma ExportMesh_color_mismatch:
  assumes "triVerts mesh \<noteq> []" and "vertColor (mat options) \<noteq> []"
    and "length (vertColor (mat options)) \<noteq> length (vertPos mesh)"
  shows "\<exists>msg. ExportMesh exporter filename mesh options w = (Inl (userErr msg), w)"
  using assms by (auto simp: ExportMesh_def Let_def)

lemma ExportMesh_empty:
  assumes "triVerts mesh = []"
  shows "ExportMesh exporter filename mesh options w =
     (Inr (), w\<lparr>console := console w @
        [filename @ '' was not saved because the input mesh was empty.'']\<rparr>)"
  using assms by (simp add: ExportMesh_def)

text \<open>
  C9: on a mesh with at least one triangle, \<open>faceted = false\<close> and a normal array whose
  length differs from that of the position array, \<open>ExportMesh\<close> throws the user error
  of the first assertion and leaves standard output and the file system as they were,
  whatever the exporter would do; a non-empty vertex colour array whose length differs
  from that of the position array gives a user error in the same way.
\<close>

theorem ExportMesh_length_checks:
  "(triVerts mesh \<noteq> [] \<and> \<not> faceted options \<and>
    length (vertNormal mesh) \<noteq> length (vertPos mesh) \<longrightarrow>
      ExportMesh exporter filename mesh options w =
        (Inl (userErr ''vertNormal must be the same length as vertPos when faceted is false.''),
         w)) \<and>
   (triVerts mesh \<noteq> [] \<and> vertColor (mat options) \<noteq> [] \<and>
    length (vertColor (mat options)) \<noteq> length (vertPos mesh) \<longrightarrow>
      (\<exists>msg. ExportMesh exporter filename mesh options w = (Inl (userErr msg), w)))"
  using ExportMesh_normal_mismatch [of mesh options exporter filename w]
    ExportMesh_color_mismatch [of mesh options exporter filename w]
  by blast

text \<open>
  The hypotheses at a mesh of one triangle on three vertices with no normals, exported
  with \<open>faceted = false\<close> and two vertex colours, and an exporter that would record the
  file: the result is the user error and nothing is recorded.
\<close>

theorem ExportMesh_length_checks_witness:
  "triVerts \<lparr>vertPos = [Vec3 (Fin 0) (Fin 0) (Fin 0), Vec3 (Fin 1) (Fin 0) (Fin 0),
                 Vec3 (Fin 0) (Fin 1) (Fin 0)],
      vertNormal = [], triVerts = [IVec3 0 1 2], halfedgeTangent = []\<rparr> \<noteq> [] \<and>
   ExportMesh (\<lambda>scene ext name fs. (AI_SUCCESS, [], (name, ext) # fs)) ''out.glb''
     \<lparr>vertPos = [Vec3 (Fin 0) (Fin 0) (Fin 0), Vec3 (Fin 1) (Fin 0) (Fin 0),
                 Vec3 (Fin 0) (Fin 1) (Fin 0)],
      vertNormal = [], triVerts = [IVec3 0 1 2], halfedgeTangent = []\<rparr>
     \<lparr>faceted = False,
      mat = \<lparr>roughness = Fin 1, metalness = Fin 0, color = Vec4 (Fin 1) (Fin 1) (Fin 1) (Fin 1),
             vertColor = [Vec4 (Fin 1) (Fin 0) (Fin 0) (Fin 1),
                          Vec4 (Fin 0) (Fin 1) (Fin 0) (Fin 1)]\<rparr>\<rparr>
     \<lparr>console = [], files = []\<rparr>
   = (Inl (userErr ''vertNormal must be the same length as vertPos when faceted is false.''),
      \<lparr>console = [], files = []\<rparr>)"
proof -
  let ?mesh = "\<lparr>vertPos = [Vec3 (Fin 0) (Fin 0) (Fin 0), Vec3 (Fin 1) (Fin 0) (Fin 0),
                 Vec3 (Fin 0) (Fin 1) (Fin 0)],
      vertNormal = [], triVerts = [IVec3 0 1 2], halfedgeTangent = []\<rparr>"
  let ?opts = "\<lparr>faceted = False,
      mat = \<lparr>roughness = Fin 1, metalness = Fin 0, color = Vec4 (Fin 1) (Fin 1) (Fin 1) (Fin 1),
             vertColor = [Vec4 (Fin 1) (Fin 0) (Fin 0) (Fin 1),
                          Vec4 (Fin 0) (Fin 1) (Fin 0) (Fin 1)]\<rparr>\<rparr>"
  have h: "triVerts ?mesh \<noteq> []" "\<not> faceted ?opts"
    "length (vertNormal ?mesh) \<noteq> length (vertPos ?mesh)"
    "vertColor (mat ?opts) \<noteq> []" "length (vertColor (mat ?opts)) \<noteq> length (vertPos ?mesh)"
    by simp_all
  from ExportMesh_length_checks
    [of ?mesh ?opts "\<lambda>scene ext name fs. (AI_SUCCESS, [], (name, ext) # fs)" "''out.glb''"
      "\<lparr>console = [], files = []\<rparr>"] h
  show ?thesis
    by blast
qed

text \<open>
  C10: on a mesh without triangles \<open>ExportMesh\<close> returns without an error, whatever the
  file name and the options are; it writes one line to standard output and leaves the
  file system as it was: the exporter is not called and no option is checked.
\<close>

theorem ExportMesh_empty_mesh:
  assumes "triVerts mesh = []"
  shows "fst (ExportMesh exporter filename mesh options w) = Inr () \<and>
         files (snd (ExportMesh exporter filename mesh options w)) = files w \<and>
         console (snd (ExportMesh exporter filename mesh options w)) =
           console w @ [filename @ '' was not saved because the input mesh was empty.'']"
  using ExportMesh_empty [OF assms, of exporter filename options w] by simp

text \<open>
  The hypothesis at a mesh with three vertices and no triangle, with \<open>faceted = false\<close>,
  no normals and a vertex colour array of the wrong length: no error and no file.
\<close>

theorem ExportMesh_empty_mesh_witness:
  "triVerts \<lparr>vertPos = [Vec3 (Fin 0) (Fin 0) (Fin 0), Vec3 (Fin 1) (Fin 0) (Fin 0),
                 Vec3 (Fin 0) (Fin 1) (Fin 0)],
      vertNormal = [], triVerts = [], halfedgeTangent = []\<rparr> = [] \<and>
   fst (ExportMesh (\<lambda>scene ext name fs. (AI_SUCCESS, [], (name, ext) # fs)) ''out.glb''
     \<lparr>vertPos = [Vec3 (Fin 0) (Fin 0) (Fin 0), Vec3 (Fin 1) (Fin 0) (Fin 0),
                 Vec3 (Fin 0) (Fin 1) (Fin 0)],
      vertNormal = [], triVerts = [], halfedgeTangent = []\<rparr>
     \<lparr>faceted = False,
      mat = \<lparr>roughness = Fin 1, metalness = Fin 0, color = Vec4 (Fin 1) (Fin 1) (Fin 1) (Fin 1),
             vertColor = [Vec4 (Fin 1) (Fin 0) (Fin 0) (Fin 1)]\<rparr>\<rparr>
     \<lparr>console = [], files = []\<rparr>) = Inr () \<and>
   files (snd (ExportMesh (\<lambda>scene ext name fs. (AI_SUCCESS, [], (name, ext) # fs)) ''out.glb''
     \<lparr>vertPos = [Vec3 (Fin 0) (Fin 0) (Fin 0), Vec3 (Fin 1) (Fin 0) (Fin 0),
                 Vec3 (Fin 0) (Fin 1) (Fin 0)],
      vertNormal = [], triVerts = [], halfedgeTangent = []\<rparr>
     \<lparr>faceted = False,
      mat = \<lparr>roughness = Fin 1, metalness = Fin 0, color = Vec4 (Fin 1) (Fin 1) (Fin 1) (Fin 1),
             vertColor = [Vec4 (Fin 1) (Fin 0) (Fin 0) (Fin 1)]\<rparr>\<rparr>
     \<lparr>console = [], files = []\<rparr>)) = []"
proof -
  let ?mesh = "\<lparr>vertPos = [Vec3 (Fin 0) (Fin 0) (Fin 0), Vec3 (Fin 1) (Fin 0) (Fin 0),
                 Vec3 (Fin 0) (Fin 1) (Fin 0)],
      vertNormal = [], triVerts = [], halfedgeTangent = []\<rparr>"
  let ?opts = "\<lparr>faceted = False,
      mat = \<lparr>roughness = Fin 1, metalness = Fin 0, color = Vec4 (Fin 1) (Fin 1) (Fin 1) (Fin 1),
             vertColor = [Vec4 (Fin 1) (Fin 0) (Fin 0) (Fin 1)]\<rparr>\<rparr>"
  have h: "triVerts ?mesh = []"
    by simp
  from ExportMesh_empty_mesh
    [OF h, of "\<lambda>scene ext name fs. (AI_SUCCESS, [], (name, ext) # fs)" "''out.glb''" ?opts
      "\<lparr>console = [], files = []\<rparr>"] h
  show ?thesis
    by simp
qed

section \<open>Degree trigonometry at large multiples of 90\<close>

lemma ulp_exp_eq:
  assumes "2 powr (of_int k) \<le> \<bar>r\<bar>" and "\<bar>r\<bar> < 2 powr (of_int k + 1)"
  shows "ulp_exp r = max (k - 23) (- 149)"
proof -
  have "(0::real) < 2 powr (of_int k)"
    by simp
  with assms(1) have "0 < \<bar>r\<bar>"
    by linarith
  then have "\<lfloor>log 2 \<bar>r\<bar>\<rfloor> = k"
    using assms by (subst floor_log_eq_powr_iff) simp_all
  then show ?thesis
    by (simp add: ulp_exp_def)
qed

lemma rne_half_even:
  assumes "even n"
  shows "rne (of_int n + 1 / 2) = n"
proof -
  have "\<lfloor>real_of_int n + 1 / 2\<rfloor> = n"
    by linarith
  then show ?thesis
    using assms by (simp add: rne_def)
qed

lemma rnd32_tie: "rnd32 33554610 = Fin 33554608"
proof -
  have e: "ulp_exp 33554610 = 2"
    using ulp_exp_eq [of 25 33554610] by simp
  have "(33554610 :: real) / 2 powr 2 = of_int 8388652 + 1 / 2"
    by simp
  then have "rne (33554610 / 2 powr 2) = 8388652"
    using rne_half_even [of 8388652] by simp
  then have "rval 33554610 = 33554608"
    by (simp add: rval_def e)
  then show ?thesis
    by (simp add: rnd32_def)
qed

lemma rne_quotient: "rne (33554608 / 90) = 372829"
proof -
  have "\<lfloor>33554608 / 90 :: real\<rfloor> = 372828"
    by simp
  then show ?thesis
    by (simp add: rne_def)
qed

lemma remquo_large: "remquo (Fin 33554608) (Fin 90) = (Fin (- 2), 5)"
  using rne_quotient by (simp add: Let_def)

lemma sind_large: "sind sn cs (Fin 33554608) = cs (radians (Fin (- 2)))"
  by (subst sind.simps) (simp add: isfinite_def fabs_def remquo_large trunc_mod_def del: remquo.simps)

lemma cosd_large: "cosd sn cs (Fin 33554520) = cs (radians (Fin (- 2)))"
  by (simp add: cosd_def rnd32_tie sind_large)


lemma cos_second_order:
  fixes x :: real
  assumes "0 < x"
  shows "\<exists>t. 0 < t \<and> t < x \<and> cos x = 1 - cos t * x\<^sup>2 / 2"
proof -
  have "(0::nat) < 2"
    by simp
  from Maclaurin_cos_expansion2 [OF assms this]
  obtain t where t: "0 < t" "t < x"
    and c: "cos x = (\<Sum>m<2. cos_coeff m * x ^ m) + (cos (t + 1 / 2 * real 2 * pi) / fact 2) * x ^ 2"
    by auto
  have "(\<Sum>m<2. cos_coeff m * x ^ m) = 1"
    by (simp add: lessThan_Suc numeral_2_eq_2 cos_coeff_def)
  moreover have "cos (t + 1 / 2 * real 2 * pi) = - cos t"
    by simp
  ultimately have "cos x = 1 - cos t * x\<^sup>2 / 2"
    using c by (simp add: fact_numeral)
  with t show ?thesis
    by blast
qed

lemma cos_lower:
  fixes x :: real
  assumes "0 < x"
  shows "1 - x\<^sup>2 / 2 \<le> cos x"
proof -
  obtain t where "cos x = 1 - cos t * x\<^sup>2 / 2"
    using cos_second_order [OF assms] by blast
  moreover have "cos t * x\<^sup>2 \<le> 1 * x\<^sup>2"
    by (intro mult_right_mono) simp_all
  ultimately show ?thesis
    by simp
qed

lemma cos_small_angle:
  fixes x :: real
  assumes "1 / 32 \<le> x" and "x \<le> 1 / 16"
  shows "1 / 2 \<le> cos x" and "cos x \<le> 1 - 1 / 4096"
proof -
  have pos: "0 < x"
    using assms by simp
  have x2: "x\<^sup>2 \<le> (1 / 16)\<^sup>2" "(1 / 32)\<^sup>2 \<le> x\<^sup>2"
    using assms pos by (simp_all add: power_mono)
  show "1 / 2 \<le> cos x"
    using cos_lower [OF pos] x2(1) by (simp add: power2_eq_square)
  obtain t where t: "0 < t" "t < x" and c: "cos x = 1 - cos t * x\<^sup>2 / 2"
    using cos_second_order [OF pos] by blast
  have "t\<^sup>2 \<le> (1 / 16)\<^sup>2"
    using t assms by (intro power_mono) simp_all
  with cos_lower [OF t(1)] have "1 / 2 \<le> cos t"
    by (simp add: power2_eq_square)
  then have "1 / 2 * (1 / 32)\<^sup>2 \<le> cos t * x\<^sup>2"
    using x2(2) by (intro mult_mono) simp_all
  then have "1 / 2048 \<le> cos t * x\<^sup>2"
    by (simp add: power2_eq_square)
  then show "cos x \<le> 1 - 1 / 4096"
    unfolding c by linarith
qed

lemma radians_minus_two:
  "\<exists>a. radians (Fin (- 2)) = Fin (- a) \<and> 1 / 32 \<le> a \<and> a \<le> 1 / 16"
proof -
  have lo: "rnd32 (1 / 64) = Fin (1 / 64)"
    using rnd32_exact [of "1 / 64" 1 "- 6"] by (simp add: powr_minus_divide)
  have mid: "rnd32 (1 / 32) = Fin (1 / 32)"
    using rnd32_exact [of "1 / 32" 1 "- 5"] by (simp add: powr_minus_divide)
  have hi: "rnd32 (1 / 16) = Fin (1 / 16)"
    using rnd32_exact [of "1 / 16" 1 "- 4"] by (simp add: powr_minus_divide)
  have "\<exists>c. rnd32 (1745329251994329576923690768489 / 10 ^ 32) = Fin c \<and> 1 / 64 \<le> c \<and> c \<le> 1 / 32"
    using lo mid by (intro rnd32_between2) simp_all
  then obtain c where c: "rnd32 (1745329251994329576923690768489 / 10 ^ 32) = Fin c"
    "1 / 64 \<le> c" "c \<le> 1 / 32"
    by blast
  have "\<exists>a. rnd32 (2 * c) = Fin a \<and> 1 / 32 \<le> a \<and> a \<le> 1 / 16"
    using c mid hi by (intro rnd32_between2) simp_all
  then obtain a where a: "rnd32 (2 * c) = Fin a" "1 / 32 \<le> a" "a \<le> 1 / 16"
    by blast
  have "radians (Fin (- 2)) = rnd32 (- (2 * c))"
    using c(1) by (simp add: radians_def)
  also have "\<dots> = Fin (- a)"
    by (simp only: rnd32_uminus a(1) fneg_simps)
  finally show ?thesis
    using a by blast
qed

lemma radians_zero: "radians (Fin 0) = Fin 0"
proof -
  have "rnd32 (1 / 32) = Fin (1 / 32)"
    using rnd32_exact [of "1 / 32" 1 "- 5"] by (simp add: powr_minus_divide)
  then have "\<exists>c. rnd32 (1745329251994329576923690768489 / 10 ^ 32) = Fin c \<and> 0 \<le> c \<and> c \<le> 1 / 32"
    by (intro rnd32_between) simp_all
  then show ?thesis
    by (auto simp: radians_def)
qed

lemma trunc_mod_nonneg:
  assumes "0 \<le> a"
  shows "trunc_mod a 4 = a mod 4"
  using assms by (cases "a = 0") (simp_all add: trunc_mod_def sgn_if)

lemma trunc_mod_quadrant:
  assumes "0 \<le> n"
  shows "trunc_mod (sgn n * (\<bar>n\<bar> mod 8)) 4 \<in> {0, 1, 2, 3}"
proof -
  have "0 \<le> sgn n * (\<bar>n\<bar> mod 8)"
    using assms by (simp add: sgn_if)
  then have "trunc_mod (sgn n * (\<bar>n\<bar> mod 8)) 4 = (sgn n * (\<bar>n\<bar> mod 8)) mod 4"
    by (rule trunc_mod_nonneg)
  moreover have "0 \<le> (sgn n * (\<bar>n\<bar> mod 8)) mod 4" "(sgn n * (\<bar>n\<bar> mod 8)) mod 4 < 4"
    by simp_all
  ultimately show ?thesis
    by (simp; presburger)
qed

lemma sind_multiple_nonneg:
  assumes "sn (Fin 0) = Fin 0" and "cs (Fin 0) = Fin 1" and "0 \<le> k"
  shows "sind sn cs (Fin (90 * of_int k)) \<in> {Fin (- 1), Fin 0, Fin 1}"
proof -
  have r: "remquo (fabs (Fin (90 * of_int k))) (Fin 90) = (Fin 0, sgn k * (\<bar>k\<bar> mod 8))"
    using assms(3) by (simp add: fabs_def Let_def)
  have nl: "\<not> flt (Fin (90 * of_int k)) (Fin 0)"
    using assms(3) by simp
  from trunc_mod_quadrant [OF assms(3)]
  consider "trunc_mod (sgn k * (\<bar>k\<bar> mod 8)) 4 = 0" | "trunc_mod (sgn k * (\<bar>k\<bar> mod 8)) 4 = 1"
    | "trunc_mod (sgn k * (\<bar>k\<bar> mod 8)) 4 = 2" | "trunc_mod (sgn k * (\<bar>k\<bar> mod 8)) 4 = 3"
    by auto
  then show ?thesis
    by cases
      (subst sind.simps,
        simp add: isfinite_def nl r radians_zero assms(1,2) del: remquo.simps flt.simps)+
qed

lemma sind_multiple_of_90:
  assumes "sn (Fin 0) = Fin 0" and "cs (Fin 0) = Fin 1"
  shows "sind sn cs (Fin (90 * of_int k)) \<in> {Fin (- 1), Fin 0, Fin 1}"
proof (cases "0 \<le> k")
  case True
  with assms show ?thesis
    by (rule sind_multiple_nonneg)
next
  case False
  then have neg: "flt (Fin (90 * of_int k)) (Fin 0)"
    by simp
  from False have "0 \<le> - k"
    by simp
  with assms have "sind sn cs (Fin (90 * of_int (- k))) \<in> {Fin (- 1), Fin 0, Fin 1}"
    by (rule sind_multiple_nonneg)
  moreover have "sind sn cs (Fin (90 * of_int k)) = fneg (sind sn cs (Fin (90 * of_int (- k))))"
    by (subst sind.simps) (simp add: isfinite_def neg del: flt.simps)
  ultimately show ?thesis
    by auto
qed

text \<open>
  C7, the failing input: \<open>33554520 = 90 * 372828\<close> is a float and a multiple of 360
  degrees, whose cosine is 1.  \<open>cosd\<close> adds \<open>90.0f\<close>; the sum 33554610 is not a float
  and rounds to 33554608, which is not a multiple of 90; \<open>remquo\<close> leaves the remainder
  \<open>-2\<close> in quadrant 1, and the result is the library cosine of \<open>-2\<close> degrees.  The
  cosine of that angle lies between \<open>1/2\<close> and \<open>1 - 1/4096\<close>.  The doc comments of
  \<^verbatim>\<open>sind\<close> and \<^verbatim>\<open>cosd\<close> promise that multiples of 90 degrees come out exact.
\<close>

theorem cosd_large_multiple:
  "\<exists>a. cosd sn cs (Fin 33554520) = cs (Fin (- a)) \<and>
       1 / 2 \<le> cos (- a) \<and> cos (- a) \<le> 1 - 1 / 4096 \<and>
       (33554520 :: real) = 90 * 372828 \<and> cos (33554520 * (pi / 180)) = 1 \<and>
       rnd32 33554520 = Fin 33554520"
proof -
  obtain a where a: "radians (Fin (- 2)) = Fin (- a)" "1 / 32 \<le> a" "a \<le> 1 / 16"
    using radians_minus_two by blast
  have "cos (33554520 * (pi / 180)) = cos (2 * pi * of_int 93207)"
    by simp
  also have "\<dots> = 1"
    by (rule cos_int_2pin)
  finally have "cos (33554520 * (pi / 180)) = 1" .
  moreover have "rnd32 33554520 = Fin 33554520"
    using rnd32_exact [of 33554520 8388630 2] by simp
  ultimately show ?thesis
    using a cos_small_angle [OF a(2,3)] by (intro exI [of _ a]) (simp add: cosd_large)
qed

end
